theory Spec2Isabelle
  imports Main
begin

section \<open>Go strings\<close>

text \<open>
  A Go string is a sequence of bytes, as an Isabelle \<open>string\<close> is.
  \<open>strings.HasPrefix\<close> and \<open>strings.Contains\<close> of the Go standard library.
\<close>

fun HasPrefix :: "string \<Rightarrow> string \<Rightarrow> bool" where
  "HasPrefix s [] = True"
| "HasPrefix [] (p # ps) = False"
| "HasPrefix (c # cs) (p # ps) = (c = p \<and> HasPrefix cs ps)"

fun Contains :: "string \<Rightarrow> string \<Rightarrow> bool" where
  "Contains [] substr = HasPrefix [] substr"
| "Contains (c # cs) substr = (HasPrefix (c # cs) substr \<or> Contains cs substr)"

section \<open>Errors\<close>

text \<open>The gRPC status codes of \<open>google.golang.org/grpc/codes\<close>.\<close>

datatype Code =
    OK | Canceled | Unknown | InvalidArgument | DeadlineExceeded | NotFound
  | AlreadyExists | PermissionDenied | ResourceExhausted | FailedPrecondition
  | Aborted | OutOfRange | Unimplemented | Internal | Unavailable | DataLoss
  | Unauthenticated

text \<open>
  The values of Go's \<open>error\<close> interface that the harness produces or receives; a nil
  error is \<open>None\<close> of \<open>error option\<close>.
  \<^item> \<open>ErrInvalidIteratorLength\<close> is the package variable of that name;
  \<^item> \<open>StatusError c m\<close> is an error that carries a gRPC status with code \<open>c\<close> and
    whose message (the result of \<open>Error()\<close>) is \<open>m\<close>, as the errors of the monitoring
    client are;
  \<^item> \<open>ErrorString m\<close> is an error made by \<open>errors.New\<close> or by \<open>fmt.Errorf\<close>
    without \<open>%w\<close>, with message \<open>m\<close>;
  \<^item> \<open>PermanentError e\<close> is \<open>backoff.Permanent(e)\<close>;
  \<^item> \<open>MultiError a b\<close> is \<open>multierr.Append(a, b)\<close> of two non-nil errors;
  \<^item> \<open>ContextDeadlineExceeded\<close> is \<open>ctx.Err()\<close> of a context past its deadline.
\<close>

datatype error =
    ErrInvalidIteratorLength
  | StatusError Code string
  | ErrorString string
  | PermanentError error
  | MultiError error error
  | ContextDeadlineExceeded

text \<open>The method \<open>Error()\<close>: the message of an error.\<close>

fun Error :: "error \<Rightarrow> string" where
  "Error ErrInvalidIteratorLength = ''iterator length is less than the defined minimum length''"
| "Error (StatusError c m) = m"
| "Error (ErrorString m) = m"
| "Error (PermanentError e) = Error e"
| "Error (MultiError a b) = Error a @ ''; '' @ Error b"
| "Error ContextDeadlineExceeded = ''context deadline exceeded''"

text \<open>\<open>multierr.Append\<close>: nil is the neutral element, two errors are combined.\<close>

fun multierr_Append :: "error option \<Rightarrow> error option \<Rightarrow> error option" where
  "multierr_Append None right = right"
| "multierr_Append (Some l) None = Some l"
| "multierr_Append (Some l) (Some r) = Some (MultiError l r)"

text \<open>
  \<open>errors.Is\<close> follows the \<open>Unwrap\<close> methods of the wrappers; \<open>status.FromError\<close>
  finds the first gRPC status in the chain and returns its code (\<open>None\<close> when its
  second result \<open>ok\<close> is false, which includes the nil error for the uses below, where
  the code of a nil status, \<open>OK\<close>, is none of the codes compared with).
\<close>

fun errors_Is :: "error \<Rightarrow> error \<Rightarrow> bool" where
  "errors_Is (PermanentError e) target = (PermanentError e = target \<or> errors_Is e target)"
| "errors_Is (MultiError a b) target =
     (MultiError a b = target \<or> errors_Is a target \<or> errors_Is b target)"
| "errors_Is e target = (e = target)"

fun status_FromError :: "error \<Rightarrow> Code option" where
  "status_FromError (StatusError c m) = Some c"
| "status_FromError (PermanentError e) = status_FromError e"
| "status_FromError (MultiError a b) =
     (case status_FromError a of Some c \<Rightarrow> Some c | None \<Rightarrow> status_FromError b)"
| "status_FromError e = None"

section \<open>Deletion: the error classifier\<close>

text \<open>
  \<open>handleDeleteError(err, attempt)\<close>: nil stays nil; quota and 50x errors are returned
  as they are, which makes \<open>backoff.Retry\<close> try again; "not found" after the first
  attempt counts as a successful deletion; everything else is wrapped as permanent.
\<close>

definition handleDeleteError :: "error option \<Rightarrow> int \<Rightarrow> error option" where
  "handleDeleteError err attempt =
     (case err of
        None \<Rightarrow> None
      | Some e \<Rightarrow>
          if Contains (Error e) ''Quota'' then Some e
          else if Contains (Error e) ''Error 50'' then Some e
          else if Contains (Error e) ''not found'' \<and> attempt > 1 then None
          else Some (PermanentError e))"

section \<open>Formatting\<close>

text \<open>
  The verbs of \<open>fmt\<close> that the error messages use. \<open>%v\<close> of a string slice is its
  elements in brackets, separated by spaces; \<open>%v\<close> of an error is its message, and
  \<open><nil>\<close> for nil; \<open>%s\<close> of a string is the string. \<open>%q\<close> of a string is
  \<open>strconv.Quote\<close>, which escapes by the Unicode tables of the Go library; the
  functions below that use it take it as their parameter \<open>fmt_q\<close>, so that what is
  proved of them holds for the rendering Go gives.
\<close>

fun join_strings :: "string list \<Rightarrow> string \<Rightarrow> string" where
  "join_strings [] sep = []"
| "join_strings [x] sep = x"
| "join_strings (x # y # ys) sep = x @ sep @ join_strings (y # ys) sep"

definition fmt_v_strings :: "string list \<Rightarrow> string" where
  "fmt_v_strings xs = ''['' @ join_strings xs '' '' @ '']''"

definition fmt_v_error :: "error option \<Rightarrow> string" where
  "fmt_v_error err = (case err of None \<Rightarrow> ''<nil>'' | Some e \<Rightarrow> Error e)"

section \<open>Backend waiters: metrics\<close>

text \<open>
  A time series of the monitoring API, with the one field the harness reads
  (\<open>Points\<close>) and the metric type. A \<open>TimeSeriesIterator\<close> is the sequence of
  results its \<open>Next()\<close> yields, a series or an error each; past the end of the
  sequence \<open>Next()\<close> yields \<open>iterator.Done\<close>.
\<close>

record Point =
  EndTime :: int
  Int64Value :: int

record TimeSeries =
  MetricType :: string
  Points :: "Point list"

datatype item = Series TimeSeries | Fail error

type_synonym TimeSeriesIterator = "item list"

text \<open>A Go call either panics or returns.\<close>

datatype 'a result = Panic string | Returns 'a

definition QueryMaxAttempts :: nat where
  "QueryMaxAttempts = 40"

definition queryMaxAttemptsMetricMissing :: nat where
  "queryMaxAttemptsMetricMissing = 5"

definition exhaustedRetriesSuffix :: string where
  "exhaustedRetriesSuffix = ''exhausted retries''"

text \<open>
  \<open>isRetriableLookupError(err)\<close>. For the nil error \<open>errors.Is\<close> is false and the nil
  status has code \<open>OK\<close>, so the result is false.
\<close>

definition isRetriableLookupError :: "error option \<Rightarrow> bool" where
  "isRetriableLookupError err =
     (case err of
        None \<Rightarrow> False
      | Some e \<Rightarrow>
          if errors_Is e ErrInvalidIteratorLength then True
          else (case status_FromError e of
                  None \<Rightarrow> False
                | Some c \<Rightarrow> c = NotFound \<or> c = Internal \<or> c = ResourceExhausted))"

text \<open>
  The loop of \<open>nonEmptySeriesList\<close> over the iterator, with the slice \<open>tsList\<close> built so
  far. The returned slice is \<open>None\<close> when it is nil.
\<close>

fun nonEmptySeriesList_loop ::
  "TimeSeriesIterator \<Rightarrow> int \<Rightarrow> TimeSeries list \<Rightarrow> TimeSeries list option \<times> error option"
where
  "nonEmptySeriesList_loop [] minimumRequiredSeries tsList =
     (if length tsList = 0 then (None, None)
      else if int (length tsList) < minimumRequiredSeries then (None, Some ErrInvalidIteratorLength)
      else (Some tsList, None))"
| "nonEmptySeriesList_loop (Fail err # it) minimumRequiredSeries tsList = (None, Some err)"
| "nonEmptySeriesList_loop (Series series # it) minimumRequiredSeries tsList =
     (if length (Points series) = 0 then nonEmptySeriesList_loop it minimumRequiredSeries tsList
      else nonEmptySeriesList_loop it minimumRequiredSeries (tsList @ [series]))"

definition nonEmptySeriesList ::
  "TimeSeriesIterator \<Rightarrow> int \<Rightarrow> (TimeSeries list option \<times> error option) result"
where
  "nonEmptySeriesList it minimumRequiredSeries =
     (if minimumRequiredSeries < 1 then Panic ''minimumRequiredSeries cannot be negative or 0''
      else Returns (nonEmptySeriesList_loop it minimumRequiredSeries []))"

text \<open>
  What one evaluation of an iterator yields: \<open>yieldsSeries it n\<close> says that the
  iterator ends without an error after series of which exactly \<open>n\<close> have points;
  \<open>firstError it\<close> is the first error the iterator yields, if it yields one.
\<close>

fun firstError :: "TimeSeriesIterator \<Rightarrow> error option" where
  "firstError [] = None"
| "firstError (Fail e # it) = Some e"
| "firstError (Series s # it) = firstError it"

fun isSeries :: "item \<Rightarrow> bool" where
  "isSeries (Series s) = True"
| "isSeries (Fail e) = False"

fun hasPoints :: "item \<Rightarrow> bool" where
  "hasPoints (Series s) = (Points s \<noteq> [])"
| "hasPoints (Fail e) = False"

definition yieldsSeries :: "TimeSeriesIterator \<Rightarrow> nat \<Rightarrow> bool" where
  "yieldsSeries it n = (list_all isSeries it \<and> length (filter hasPoints it) = n)"

text \<open>
  \<open>WaitForMetricSeries\<close>. The monitoring backend is the parameter \<open>lookupMetric\<close>: the
  iterator that the \<open>attempt\<close>-th call of \<open>lookupMetric\<close> in this run returns (the
  request is the same in every attempt). The parameter \<open>fmt_q\<close> is the verb \<open>%q\<close>
  of \<open>fmt\<close> on strings. The result carries, next to the two values the Go function
  returns, the number of queries sent to the backend. The sleep between attempts has
  no effect on the values and is left out.
\<close>

function WaitForMetricSeries_loop ::
  "(string \<Rightarrow> string) \<Rightarrow> (nat \<Rightarrow> TimeSeriesIterator) \<Rightarrow> string \<Rightarrow> string list
     \<Rightarrow> int \<Rightarrow> nat
     \<Rightarrow> ((TimeSeries list option \<times> error option) \<times> nat) result"
where
  "WaitForMetricSeries_loop fmt_q lookupMetric metric extraFilters minimumRequiredSeries attempt =
     (if attempt \<le> QueryMaxAttempts then
        (case nonEmptySeriesList (lookupMetric attempt) minimumRequiredSeries of
           Panic p \<Rightarrow> Panic p
         | Returns (tsList, err) \<Rightarrow>
             if tsList \<noteq> None \<and> err = None then Returns ((tsList, None), attempt)
             else if err \<noteq> None \<and> \<not> isRetriableLookupError err then
               Returns ((None, Some (ErrorString (''WaitForMetric(metric='' @ fmt_q metric
                   @ '', extraFilters='' @ fmt_v_strings extraFilters @ ''): ''
                   @ fmt_v_error err))), attempt)
             else WaitForMetricSeries_loop fmt_q lookupMetric metric extraFilters
                    minimumRequiredSeries (attempt + 1))
      else Returns ((None, Some (ErrorString (''WaitForMetricSeries(metric='' @ metric
              @ '', extraFilters='' @ fmt_v_strings extraFilters @ '') failed: ''
              @ exhaustedRetriesSuffix))), attempt - 1))"
  by pat_completeness auto
termination
  by (relation "measure (\<lambda>(q, l, m, e, r, attempt). Suc QueryMaxAttempts - attempt)") auto

definition WaitForMetricSeries ::
  "(string \<Rightarrow> string) \<Rightarrow> (nat \<Rightarrow> TimeSeriesIterator) \<Rightarrow> string \<Rightarrow> string list \<Rightarrow> int
     \<Rightarrow> ((TimeSeries list option \<times> error option) \<times> nat) result"
where
  "WaitForMetricSeries fmt_q lookupMetric metric extraFilters minimumRequiredSeries =
     WaitForMetricSeries_loop fmt_q lookupMetric metric extraFilters minimumRequiredSeries 1"

text \<open>
  \<open>WaitForMetric\<close> asks for one series and returns the first; indexing an empty
  slice would panic.
\<close>

definition WaitForMetric ::
  "(string \<Rightarrow> string) \<Rightarrow> (nat \<Rightarrow> TimeSeriesIterator) \<Rightarrow> string \<Rightarrow> string list
     \<Rightarrow> (TimeSeries option \<times> error option) result"
where
  "WaitForMetric fmt_q lookupMetric metric extraFilters =
     (case WaitForMetricSeries fmt_q lookupMetric metric extraFilters 1 of
        Panic p \<Rightarrow> Panic p
      | Returns ((series, err), n) \<Rightarrow>
          if err \<noteq> None then Returns (None, err)
          else (case series of
                  Some (s # ss) \<Rightarrow> Returns (Some s, None)
                | _ \<Rightarrow> Panic ''index out of range [0] with length 0''))"

text \<open>
  \<open>AssertMetricMissing\<close>, with the loop counter \<open>attempt\<close> and the local
  \<open>descriptorNotFoundErrCount\<close>. \<open>found\<close> is \<open>len(series) > 0\<close>, false for the nil
  slice. Next to the error, the result carries the number of queries sent to the
  backend.
\<close>

function AssertMetricMissing_loop ::
  "(string \<Rightarrow> string) \<Rightarrow> (nat \<Rightarrow> TimeSeriesIterator) \<Rightarrow> string \<Rightarrow> bool \<Rightarrow> nat \<Rightarrow> nat
     \<Rightarrow> (error option \<times> nat) result"
where
  "AssertMetricMissing_loop fmt_q lookupMetric metric isPrometheus attempt descriptorNotFoundErrCount =
     (if attempt \<le> queryMaxAttemptsMetricMissing then
        (case nonEmptySeriesList (lookupMetric attempt) 1 of
           Panic p \<Rightarrow> Panic p
         | Returns (series, err) \<Rightarrow>
             let found = (case series of None \<Rightarrow> False | Some l \<Rightarrow> length l > 0) in
             if err = None then
               (if found then
                  Returns (Some (ErrorString (''AssertMetricMissing(metric='' @ fmt_q metric
                    @ ''): '' @ fmt_v_error err
                    @ '' failed: unexpectedly found data for metric'')), attempt)
                else Returns (None, attempt))
             else if \<not> isRetriableLookupError err then
               Returns (Some (ErrorString (''AssertMetricMissing(metric='' @ fmt_q metric
                 @ ''): '' @ fmt_v_error err)), attempt)
             else AssertMetricMissing_loop fmt_q lookupMetric metric isPrometheus (attempt + 1)
                    (if (case err of None \<Rightarrow> False
                                   | Some e \<Rightarrow> status_FromError e = Some NotFound) \<and> isPrometheus
                     then descriptorNotFoundErrCount + 1 else descriptorNotFoundErrCount))
      else if \<not> isPrometheus then
        Returns (Some (ErrorString (''AssertMetricMissing(metric='' @ fmt_q metric
          @ ''): failed: no successful queries to the backend'')), attempt - 1)
      else if descriptorNotFoundErrCount \<noteq> queryMaxAttemptsMetricMissing then
        Returns (Some (ErrorString (''AssertMetricMissing(metric='' @ fmt_q metric
          @ ''): failed: atleast one query failed with something other than a NOT_FOUND error'')),
          attempt - 1)
      else Returns (None, attempt - 1))"
  by pat_completeness auto
termination
  by (relation "measure (\<lambda>(q, l, m, p, attempt, c). Suc queryMaxAttemptsMetricMissing - attempt)")
    auto

definition AssertMetricMissing ::
  "(string \<Rightarrow> string) \<Rightarrow> (nat \<Rightarrow> TimeSeriesIterator) \<Rightarrow> string \<Rightarrow> bool \<Rightarrow> (error option \<times> nat) result"
where
  "AssertMetricMissing fmt_q lookupMetric metric isPrometheus =
     AssertMetricMissing_loop fmt_q lookupMetric metric isPrometheus 1 0"

section \<open>Virtual machines\<close>

record VMOptions =
  ImageSpec :: string
  TimeToLive :: string
  Name :: string
  Project :: string
  Zone :: string
  Metadata :: "(string \<times> string) list"
  Labels :: "(string \<times> string) list"
  MachineType :: string
  ImageFamilyScope :: string
  ExtraCreateArguments :: "string list"

record OS =
  ID :: string

record VM =
  Name :: string
  Project :: string
  Network :: string
  ImageSpec :: string
  OS :: OS
  Zone :: string
  MachineType :: string
  ID :: int
  IPAddress :: string
  AlreadyDeleted :: bool

text \<open>\<open>ManagedInstanceGroupVM\<close> embeds a pointer to a \<open>VM\<close>.\<close>

record ManagedInstanceGroupVM =
  VM :: VM

definition ManagedInstanceGroupName :: "ManagedInstanceGroupVM \<Rightarrow> string" where
  "ManagedInstanceGroupName migVM = VM.Name (VM migVM) @ ''-mig''"

definition InstanceTemplateName :: "ManagedInstanceGroupVM \<Rightarrow> string" where
  "InstanceTemplateName migVM = VM.Name (VM migVM) @ ''-tmpl''"

section \<open>Time and the retry loop of the backoff library\<close>

text \<open>
  \<open>time.Duration\<close> counts nanoseconds. Points in time are durations since the start
  of the call that is modelled.
\<close>

type_synonym Duration = nat

definition Second :: Duration where
  "Second = 1000000000"

definition Minute :: Duration where
  "Minute = 60 * Second"

definition vmInitTimeout :: Duration where
  "vmInitTimeout = 20 * Minute"

text \<open>
  \<open>errors.As(err, &permanent)\<close> of \<open>backoff.Retry\<close>: the first \<open>PermanentError\<close> in
  the chain of \<open>err\<close>; the result is the error it wraps.
\<close>

fun as_PermanentError :: "error \<Rightarrow> error option" where
  "as_PermanentError (PermanentError e) = Some e"
| "as_PermanentError (MultiError a b) =
     (case as_PermanentError a of Some e \<Rightarrow> Some e | None \<Rightarrow> as_PermanentError b)"
| "as_PermanentError e = None"

text \<open>
  \<open>backoff.Retry(operation, backoffPolicy)\<close> for the policy
  \<open>WithContext(WithMaxRetries(NewConstantBackOff(interval), maxTries), ctx)\<close>.
  \<open>operation k\<close> is the \<open>k\<close>-th call of the closure: the time it takes and the error
  it returns. \<open>deadline\<close> is the deadline of \<open>ctx\<close>, \<open>now\<close> the time at which the
  next call starts, \<open>numTries\<close> the counter of \<open>WithMaxRetries\<close>. The loop calls the
  operation; nil ends it with success and a permanent error with that error; then
  \<open>NextBackOff\<close> stops with the context's error when the context is done, and with
  the operation's error when the retries are used up; then the loop waits for the
  timer or the context, whichever is first (the context, when they coincide). The
  result is the error, the time at the return and the number of calls made.
\<close>

function Retry_WithMaxRetries ::
  "(nat \<Rightarrow> Duration \<times> error option) \<Rightarrow> Duration \<Rightarrow> nat \<Rightarrow> Duration \<Rightarrow> Duration \<Rightarrow> nat
     \<Rightarrow> error option \<times> Duration \<times> nat"
where
  "Retry_WithMaxRetries operation interval maxTries deadline now numTries =
     (case operation (Suc numTries) of (d, err) \<Rightarrow>
        (case err of
           None \<Rightarrow> (None, now + d, Suc numTries)
         | Some e \<Rightarrow>
             (case as_PermanentError e of
                Some p \<Rightarrow> (Some p, now + d, Suc numTries)
              | None \<Rightarrow>
                  if deadline \<le> now + d then (Some ContextDeadlineExceeded, now + d, Suc numTries)
                  else if maxTries \<le> numTries then (Some e, now + d, Suc numTries)
                  else if deadline \<le> now + d + interval
                    then (Some ContextDeadlineExceeded, deadline, Suc numTries)
                  else Retry_WithMaxRetries operation interval maxTries deadline
                         (now + d + interval) (Suc numTries))))"
  by pat_completeness auto
termination
  by (relation "measure (\<lambda>(operation, interval, maxTries, deadline, now, numTries).
        maxTries - numTries)") auto

text \<open>
  \<open>backoff.Retry\<close> for the policy \<open>WithContext(NewConstantBackOff(time.Minute), ctx)\<close>
  of the creation functions. The closure assigns a variable of the caller (the
  resource it created, or nil) at each call; \<open>operation k\<close> gives the time of the
  \<open>k\<close>-th call, the value assigned and the error. The result is the value last
  assigned and the error.
\<close>

function Retry_WithContext ::
  "(nat \<Rightarrow> Duration \<times> 'a \<times> error option) \<Rightarrow> Duration \<Rightarrow> Duration \<Rightarrow> nat \<Rightarrow> 'a \<times> error option"
where
  "Retry_WithContext operation deadline now calls =
     (case operation (Suc calls) of (d, v, err) \<Rightarrow>
        (case err of
           None \<Rightarrow> (v, None)
         | Some e \<Rightarrow>
             (case as_PermanentError e of
                Some p \<Rightarrow> (v, Some p)
              | None \<Rightarrow>
                  if deadline \<le> now + d then (v, Some ContextDeadlineExceeded)
                  else if deadline \<le> now + d + Minute then (v, Some ContextDeadlineExceeded)
                  else Retry_WithContext operation deadline (now + d + Minute) (Suc calls))))"
  by pat_completeness auto
termination
  by (relation "measure (\<lambda>(operation, deadline, now, calls). deadline - now)")
    (auto simp: Minute_def Second_def)

text \<open>
  The time at which the wait after the \<open>j\<close>-th call of the operation is over, when
  the loop started at time 0 and no earlier call ended it: every call takes its time
  and is followed by a wait of \<open>interval\<close>.
\<close>

fun timerFires :: "(nat \<Rightarrow> Duration \<times> error option) \<Rightarrow> Duration \<Rightarrow> nat \<Rightarrow> Duration" where
  "timerFires operation interval 0 = 0"
| "timerFires operation interval (Suc j) =
     timerFires operation interval j + fst (operation (Suc j)) + interval"

section \<open>Deletion\<close>

text \<open>
  The cloud, for the deletion functions: \<open>RunGcloud args k\<close> is what the \<open>k\<close>-th run
  of \<open>gcloud\<close> with the arguments \<open>args\<close> within one deletion call does, the time
  it takes and the error it returns. Each deletion function returns the updated
  object, the error, and the argument vectors of the \<open>gcloud\<close> commands it issued, in
  order. The argument vectors of the three deletion commands come first.
\<close>

type_synonym gcloud = "string list \<Rightarrow> nat \<Rightarrow> Duration \<times> error option"

definition deleteInstanceArgs :: "VM \<Rightarrow> string list" where
  "deleteInstanceArgs vm =
     [''compute'', ''instances'', ''delete'',
      ''--project='' @ VM.Project vm,
      ''--zone='' @ VM.Zone vm,
      VM.Name vm]"

definition deleteMIGArgs :: "ManagedInstanceGroupVM \<Rightarrow> string list" where
  "deleteMIGArgs migVM =
     [''compute'', ''instance-groups'', ''managed'', ''delete'',
      ManagedInstanceGroupName migVM,
      ''--project='' @ VM.Project (VM migVM),
      ''--zone='' @ VM.Zone (VM migVM)]"

definition deleteTemplateArgs :: "ManagedInstanceGroupVM \<Rightarrow> string list" where
  "deleteTemplateArgs migVM =
     [''compute'', ''instance-templates'', ''delete'',
      InstanceTemplateName migVM,
      ''--project='' @ VM.Project (VM migVM)]"

definition DeleteInstance :: "gcloud \<Rightarrow> VM \<Rightarrow> VM \<times> error option \<times> string list list" where
  "DeleteInstance RunGcloud vm =
     (if AlreadyDeleted vm then (vm, None, [])
      else
        let args = deleteInstanceArgs vm;
            tryDelete = (\<lambda>attempt. case RunGcloud args attempt of
                           (d, err) \<Rightarrow> (d, handleDeleteError err (int attempt)))
        in case Retry_WithMaxRetries tryDelete (30 * Second) 10 (10 * Minute) 0 0 of
             (err, t, calls) \<Rightarrow>
               (if err = None then vm\<lparr>AlreadyDeleted := True\<rparr> else vm, err,
                replicate calls args))"

definition DeleteManagedInstanceGroupVM ::
  "gcloud \<Rightarrow> ManagedInstanceGroupVM \<Rightarrow> ManagedInstanceGroupVM \<times> error option \<times> string list list"
where
  "DeleteManagedInstanceGroupVM RunGcloud migVM =
     (if AlreadyDeleted (VM migVM) then (migVM, None, [])
      else
        let migArgs = deleteMIGArgs migVM;
            tryDeleteMIG = (\<lambda>attempt. case RunGcloud migArgs attempt of
                              (d, err) \<Rightarrow>
                                (d, if err = None then None
                                    else handleDeleteError err (int attempt)))
        in case Retry_WithMaxRetries tryDeleteMIG (30 * Second) 10 (10 * Minute) 0 0 of
             (err, t, calls) \<Rightarrow>
               if err \<noteq> None then (migVM, err, replicate calls migArgs)
               else
                 let tmplArgs = deleteTemplateArgs migVM;
                     tryDeleteTemplate = (\<lambda>attempt. case RunGcloud tmplArgs attempt of
                                            (d, err) \<Rightarrow> (d, handleDeleteError err (int attempt)))
                 in case Retry_WithMaxRetries tryDeleteTemplate (30 * Second) 10 (10 * Minute)
                           t 0 of
                      (err, t', calls') \<Rightarrow>
                        (if err = None then migVM\<lparr>VM := (VM migVM)\<lparr>AlreadyDeleted := True\<rparr>\<rparr>
                         else migVM,
                         err, replicate calls migArgs @ replicate calls' tmplArgs))"

text \<open>
  What it means, in terms of the answers of the cloud, that a deletion with its
  retries succeeded. A run of the deletion command ends the deletion with success
  when \<open>gcloud\<close> returns no error, or, after the first run, an error whose message
  contains "not found" and neither "Quota" nor "Error 50". A run is tried again when
  its error has "Quota" or "Error 50" in its message (and is not an error that the
  backoff library takes for permanent, which an error of \<open>gcloud\<close> never is). The
  deletion succeeds at run \<open>k\<close> when \<open>k\<close> is within the eleven runs that ten retries
  allow, run \<open>k\<close> ends it with success, and every earlier run was tried again, the
  wait of 30 seconds after it over before the 10 minutes of the context were.
\<close>

definition runDeleted :: "gcloud \<Rightarrow> string list \<Rightarrow> nat \<Rightarrow> bool" where
  "runDeleted RunGcloud args k =
     (case snd (RunGcloud args k) of
        None \<Rightarrow> True
      | Some e \<Rightarrow> 1 < k \<and> Contains (Error e) ''not found''
                 \<and> \<not> Contains (Error e) ''Quota'' \<and> \<not> Contains (Error e) ''Error 50'')"

definition runRetried :: "gcloud \<Rightarrow> string list \<Rightarrow> nat \<Rightarrow> bool" where
  "runRetried RunGcloud args j =
     (case snd (RunGcloud args j) of
        None \<Rightarrow> False
      | Some e \<Rightarrow> (Contains (Error e) ''Quota'' \<or> Contains (Error e) ''Error 50'')
                 \<and> as_PermanentError e = None)"

definition deletionSucceededAt :: "gcloud \<Rightarrow> string list \<Rightarrow> nat \<Rightarrow> bool" where
  "deletionSucceededAt RunGcloud args k =
     (1 \<le> k \<and> k \<le> 11 \<and> runDeleted RunGcloud args k
      \<and> (\<forall>j\<in>{1..<k}. runRetried RunGcloud args j
                        \<and> timerFires (RunGcloud args) (30 * Second) j < 10 * Minute))"

section \<open>Creation\<close>

definition HasSuffix :: "string \<Rightarrow> string \<Rightarrow> bool" where
  "HasSuffix s suffix = HasPrefix (rev s) (rev suffix)"

definition IsWindows :: "string \<Rightarrow> bool" where
  "IsWindows imageSpec = HasPrefix imageSpec ''windows-''"

definition IsWindowsCore :: "string \<Rightarrow> bool" where
  "IsWindowsCore imageSpec = (IsWindows imageSpec \<and> HasSuffix imageSpec ''-core'')"

definition IsSUSEImageSpec :: "string \<Rightarrow> bool" where
  "IsSUSEImageSpec imageSpec =
     (HasPrefix imageSpec ''suse-'' \<or> HasPrefix imageSpec ''opensuse-''
      \<or> Contains imageSpec ''sles-'')"

definition IsARM :: "string \<Rightarrow> bool" where
  "IsARM imageSpec = Contains imageSpec ''arm64''"

definition prepareSLESMessage :: string where
  "prepareSLESMessage = ''prepareSLES() failed''"

definition startupFailedMessage :: string where
  "startupFailedMessage = ''waitForStartLinux() failed: waiting for startup timed out''"

definition windowsStartupFailedMessage :: string where
  "windowsStartupFailedMessage =
     ''waitForStartWindows() failed: ran out of attempts waiting for dummy command to run.''"

definition shouldRetryCreateVM :: "error \<Rightarrow> VMOptions \<Rightarrow> bool" where
  "shouldRetryCreateVM err options =
     (Contains (Error err) ''Quota''
      \<or> Contains (Error err) ''Internal error''
      \<or> Contains (Error err) ''currently unavailable''
      \<or> Contains (Error err) ''database is locked''
      \<or> (IsWindowsCore (VMOptions.ImageSpec options)
          \<and> Contains (Error err) windowsStartupFailedMessage)
      \<or> (IsSUSEImageSpec (VMOptions.ImageSpec options)
          \<and> Contains (Error err) startupFailedMessage)
      \<or> Contains (Error err) prepareSLESMessage)"

definition shouldRetryCreateManagedInstanceGroupVM :: "error \<Rightarrow> VMOptions \<Rightarrow> bool" where
  "shouldRetryCreateManagedInstanceGroupVM err options =
     (shouldRetryCreateVM err options
      \<or> Contains (Error err) ''Timeout while waiting for group to become stable.'')"

text \<open>
  The process environment that creation reads: three environment variables and the
  package variable \<open>sandboxPrefix\<close>.
\<close>

record Env =
  NETWORK_NAME :: string
  PROJECT :: string
  INSTANCE_SIZE :: string
  sandboxPrefix :: string

text \<open>
  What one creation attempt meets outside the functions modelled here: the UUID
  drawn, the zone that \<open>zonePicker.Next()\<close> hands out, the result of
  \<open>additionalCreateInstanceArgs\<close>, the standard output and the error of each
  \<open>gcloud\<close> command, the results of parsing that output (\<open>extractID\<close>,
  \<open>extractIPAddress\<close>), the result of \<open>verifyVMCreation\<close> (the \<open>OS\<close> it leaves in
  the VM, and its error), the cloud that a clean-up deletion meets, and the time the
  attempt takes. \<open>DescribeVMDisk\<close> only writes to the log and is left out.
\<close>

record Attempt =
  uuid_New :: string
  zonePicker_Next :: string
  additionalCreateInstanceArgs :: "VMOptions \<Rightarrow> VM \<Rightarrow> error + string list"
  RunGcloud_create :: "string list \<Rightarrow> string \<times> error option"
  extractID :: "string \<Rightarrow> error + int"
  extractIPAddress :: "string \<Rightarrow> error + string"
  verifyVMCreation :: "VM \<Rightarrow> OS \<times> error option"
  RunGcloud_delete :: gcloud
  duration :: Duration

definition createVMFromVMOptions :: "Env \<Rightarrow> Attempt \<Rightarrow> VMOptions \<Rightarrow> VM" where
  "createVMFromVMOptions env w options =
     (let vm = \<lparr> VM.Name = VMOptions.Name options,
                 VM.Project = VMOptions.Project options,
                 Network = NETWORK_NAME env,
                 VM.ImageSpec = VMOptions.ImageSpec options,
                 OS = \<lparr> OS.ID = '''' \<rparr>,
                 VM.Zone = VMOptions.Zone options,
                 VM.MachineType = '''',
                 VM.ID = 0,
                 IPAddress = '''',
                 AlreadyDeleted = False \<rparr>;
          vm = (if VM.Name vm = ''''
                then vm\<lparr>VM.Name := sandboxPrefix env @ ''-'' @ uuid_New w\<rparr> else vm);
          vm = (if VM.Project vm = '''' then vm\<lparr>VM.Project := PROJECT env\<rparr> else vm);
          vm = (if Network vm = '''' then vm\<lparr>Network := ''default''\<rparr> else vm);
          vm = (if VM.Zone vm = '''' then vm\<lparr>VM.Zone := zonePicker_Next w\<rparr> else vm);
          vm = vm\<lparr>VM.MachineType := INSTANCE_SIZE env\<rparr>;
          vm = (if VM.MachineType vm = ''''
                then vm\<lparr>VM.MachineType := VMOptions.MachineType options\<rparr> else vm);
          vm = (if VM.MachineType vm = ''''
                then vm\<lparr>VM.MachineType :=
                       (if IsARM (VM.ImageSpec vm) then ''t2a-standard-4'' else ''e2-standard-4'')\<rparr>
                else vm)
      in vm)"

text \<open>
  The deferred function of \<open>attemptCreateInstance\<close>, applied to the VM built so far
  and to the two values about to be returned. Its second check, for a nil \<open>vm\<close>
  with a nil error, cannot fire: \<open>vm\<close> is the pointer that
  \<open>createVMFromVMOptions\<close> allocated.
\<close>

definition attemptCreateInstance_deferred ::
  "Attempt \<Rightarrow> VM \<times> VM option \<times> error option \<Rightarrow> VM option \<times> error option"
where
  "attemptCreateInstance_deferred w ret =
     (case ret of (vm, vmToReturn, errToReturn) \<Rightarrow>
        if errToReturn \<noteq> None then
          (case DeleteInstance (RunGcloud_delete w) vm of
             (vm', deleteErr, cmds) \<Rightarrow> (None, multierr_Append errToReturn deleteErr))
        else (vmToReturn, errToReturn))"

text \<open>
  The part that \<open>attemptCreateInstance\<close> and \<open>attemptCreateManagedInstanceGroupVM\<close>
  share after the last \<open>gcloud\<close> command: instance ID and IP address from the
  output, then \<open>verifyVMCreation\<close>. It gives the VM as it stands and the two values
  of the \<open>return\<close> statement reached.
\<close>

definition fill_and_verify ::
  "Attempt \<Rightarrow> VM \<Rightarrow> string \<Rightarrow> VM \<times> VM option \<times> error option"
where
  "fill_and_verify w vm stdout =
     (case extractID w stdout of
        Inl err \<Rightarrow> (vm, None, Some err)
      | Inr id' \<Rightarrow>
          (let vm = vm\<lparr>VM.ID := id'\<rparr> in
           case extractIPAddress w stdout of
             Inl err \<Rightarrow> (vm, None, Some err)
           | Inr ipAddress \<Rightarrow>
               (let vm = vm\<lparr>IPAddress := ipAddress\<rparr> in
                case verifyVMCreation w vm of
                  (os, Some err) \<Rightarrow> (vm\<lparr>OS := os\<rparr>, None, Some err)
                | (os, None) \<Rightarrow> (vm\<lparr>OS := os\<rparr>, Some (vm\<lparr>OS := os\<rparr>), None))))"

definition attemptCreateInstance ::
  "Env \<Rightarrow> Attempt \<Rightarrow> VMOptions \<Rightarrow> VM option \<times> error option"
where
  "attemptCreateInstance env w options =
     (let vm = createVMFromVMOptions env w options;
          imageFamilyScope = (if ImageFamilyScope options = '''' then ''global''
                              else ImageFamilyScope options);
          args = [''beta'', ''compute'', ''instances'', ''create'', VM.Name vm,
                  ''--project='' @ VM.Project vm,
                  ''--zone='' @ VM.Zone vm,
                  ''--machine-type='' @ VM.MachineType vm,
                  ''--image-family-scope='' @ imageFamilyScope,
                  ''--network='' @ Network vm,
                  ''--format=json'']
      in case additionalCreateInstanceArgs w options vm of
           Inl err \<Rightarrow> (None, Some err)
         | Inr additionalArgs \<Rightarrow>
             (case RunGcloud_create w (args @ additionalArgs) of
                (stdout, Some err) \<Rightarrow> (None, Some err)
              | (stdout, None) \<Rightarrow>
                  attemptCreateInstance_deferred w (fill_and_verify w vm stdout)))"

text \<open>
  \<open>CreateInstance\<close>. \<open>world k\<close> is what the \<open>k\<close>-th attempt meets; \<open>origDeadline\<close>
  is the deadline of the caller's context, when it has one. The context of the
  retry loop ends at that deadline or three times \<open>vmInitTimeout\<close> after the start,
  whichever is first.
\<close>

definition CreateInstance ::
  "Env \<Rightarrow> (nat \<Rightarrow> Attempt) \<Rightarrow> Duration option \<Rightarrow> VMOptions \<Rightarrow> VM option \<times> error option"
where
  "CreateInstance env world origDeadline options =
     (let deadline = (case origDeadline of
                        None \<Rightarrow> 3 * vmInitTimeout
                      | Some d \<Rightarrow> min d (3 * vmInitTimeout));
          createFunc = (\<lambda>k. case attemptCreateInstance env (world k) options of
                          (vm, err) \<Rightarrow>
                            (duration (world k), vm,
                             case err of
                               None \<Rightarrow> None
                             | Some e \<Rightarrow> if \<not> shouldRetryCreateVM e options
                                         then Some (PermanentError e) else Some e))
      in case Retry_WithContext createFunc deadline 0 0 of
           (vm, err) \<Rightarrow> if err \<noteq> None then (None, err) else (vm, None))"

text \<open>The same for a VM in a managed instance group.\<close>

definition attemptCreateManagedInstanceGroupVM_deferred ::
  "Attempt \<Rightarrow> ManagedInstanceGroupVM \<times> ManagedInstanceGroupVM option \<times> error option
     \<Rightarrow> ManagedInstanceGroupVM option \<times> error option"
where
  "attemptCreateManagedInstanceGroupVM_deferred w ret =
     (case ret of (migVM, migVmToReturn, errToReturn) \<Rightarrow>
        if errToReturn \<noteq> None then
          (case DeleteManagedInstanceGroupVM (RunGcloud_delete w) migVM of
             (migVM', deleteErr, cmds) \<Rightarrow> (None, multierr_Append errToReturn deleteErr))
        else (migVmToReturn, errToReturn))"

text \<open>
  Steps 2 to 5 of \<open>attemptCreateManagedInstanceGroupVM\<close> and what follows them, that
  is, everything after the deferred function is registered. The result is the object
  as it stands and the two values of the \<open>return\<close> statement reached.
\<close>

definition attemptCreateManagedInstanceGroupVM_steps ::
  "Attempt \<Rightarrow> ManagedInstanceGroupVM
     \<Rightarrow> ManagedInstanceGroupVM \<times> ManagedInstanceGroupVM option \<times> error option"
where
  "attemptCreateManagedInstanceGroupVM_steps w migVM =
     (let createMIGArgs =
            [''compute'', ''instance-groups'', ''managed'', ''create'',
             ManagedInstanceGroupName migVM,
             ''--project='' @ VM.Project (VM migVM),
             ''--zone='' @ VM.Zone (VM migVM),
             ''--size=0'',
             ''--template='' @ InstanceTemplateName migVM,
             ''--format=json''];
          createVMArgs =
            [''compute'', ''instance-groups'', ''managed'', ''create-instance'',
             ManagedInstanceGroupName migVM,
             ''--instance='' @ VM.Name (VM migVM),
             ''--project='' @ VM.Project (VM migVM),
             ''--zone='' @ VM.Zone (VM migVM),
             ''--format=json''];
          waitUntilStableArgs =
            [''compute'', ''instance-groups'', ''managed'', ''wait-until'',
             ManagedInstanceGroupName migVM,
             ''--stable'',
             ''--timeout=300'',
             ''--project='' @ VM.Project (VM migVM),
             ''--zone='' @ VM.Zone (VM migVM),
             ''--format=json''];
          listVMArgs =
            [''compute'', ''instances'', ''list'',
             ''--filter=name=( '' @ [CHR 0x27] @ VM.Name (VM migVM) @ [CHR 0x27] @ '' ... )'',
             ''--project='' @ VM.Project (VM migVM),
             ''--zones='' @ VM.Zone (VM migVM),
             ''--format=json'']
      in case RunGcloud_create w createMIGArgs of
           (stdout, Some err) \<Rightarrow> (migVM, None, Some err)
         | (stdout, None) \<Rightarrow>
        (case RunGcloud_create w createVMArgs of
           (stdout, Some err) \<Rightarrow> (migVM, None, Some err)
         | (stdout, None) \<Rightarrow>
        (case RunGcloud_create w waitUntilStableArgs of
           (stdout, Some err) \<Rightarrow> (migVM, None, Some err)
         | (stdout, None) \<Rightarrow>
        (case RunGcloud_create w listVMArgs of
           (stdout, Some err) \<Rightarrow> (migVM, None, Some err)
         | (stdout, None) \<Rightarrow>
             (case fill_and_verify w (VM migVM) stdout of
                (vm, vmToReturn, errToReturn) \<Rightarrow>
                  (\<lparr> VM = vm \<rparr>,
                   map_option (\<lambda>v. \<lparr> VM = v \<rparr>) vmToReturn,
                   errToReturn))))))"

definition attemptCreateManagedInstanceGroupVM ::
  "Env \<Rightarrow> Attempt \<Rightarrow> VMOptions \<Rightarrow> ManagedInstanceGroupVM option \<times> error option"
where
  "attemptCreateManagedInstanceGroupVM env w options0 =
     (let options = options0\<lparr>VMOptions.Name := sandboxPrefix env @ ''-'' @ take 30 (uuid_New w)\<rparr>;
          migVM = \<lparr> VM = createVMFromVMOptions env w options \<rparr>;
          createTemplateArgs =
            [''beta'', ''compute'', ''instance-templates'', ''create'', InstanceTemplateName migVM,
             ''--project='' @ VM.Project (VM migVM),
             ''--machine-type='' @ VM.MachineType (VM migVM),
             ''--network='' @ Network (VM migVM),
             ''--format=json'']
      in case additionalCreateInstanceArgs w options (VM migVM) of
           Inl err \<Rightarrow> (None, Some err)
         | Inr additionalArgs \<Rightarrow>
             (case RunGcloud_create w (createTemplateArgs @ additionalArgs) of
                (stdout, Some err) \<Rightarrow> (None, Some err)
              | (stdout, None) \<Rightarrow>
                  attemptCreateManagedInstanceGroupVM_deferred w
                    (attemptCreateManagedInstanceGroupVM_steps w migVM)))"

definition CreateManagedInstanceGroupVM ::
  "Env \<Rightarrow> (nat \<Rightarrow> Attempt) \<Rightarrow> Duration option \<Rightarrow> VMOptions
     \<Rightarrow> ManagedInstanceGroupVM option \<times> error option"
where
  "CreateManagedInstanceGroupVM env world origDeadline options =
     (let deadline = (case origDeadline of
                        None \<Rightarrow> 3 * vmInitTimeout
                      | Some d \<Rightarrow> min d (3 * vmInitTimeout));
          createFunc = (\<lambda>k. case attemptCreateManagedInstanceGroupVM env (world k) options of
                          (migVM, err) \<Rightarrow>
                            (duration (world k), migVM,
                             case err of
                               None \<Rightarrow> None
                             | Some e \<Rightarrow> if \<not> shouldRetryCreateManagedInstanceGroupVM e options
                                         then Some (PermanentError e) else Some e))
      in case Retry_WithContext createFunc deadline 0 0 of
           (migVM, err) \<Rightarrow> if err \<noteq> None then (None, err) else (migVM, None))"

section \<open>Zone Selector\<close>

text \<open>
  Modelled from the spec: the type \<open>weightedRoundRobin\<close> of the variable
  \<open>zonePicker\<close> is declared in a file that is not among the sources; only its use
  (\<open>zonePicker.Next()\<close>) is. The spec gives its state: an ordered list of (zone,
  weight) pairs plus a cursor.
\<close>

record ZoneSelector =
  zones :: "(string \<times> nat) list"
  cursor :: nat

text \<open>
  Modelled from the spec: \<open>newZonePicker\<close>, missing from the sources, here on the
  entries of the configuration string after splitting (\<open>zone=weight\<close>, the weight
  optional). A weight defaults to 1 when omitted and must be a positive integer when
  present; an empty list or a non-positive weight is a configuration error (\<open>None\<close>).
\<close>

definition newZonePicker :: "(string \<times> int option) list \<Rightarrow> ZoneSelector option" where
  "newZonePicker entries =
     (if entries = [] then None
      else if list_ex (\<lambda>(z, w). case w of None \<Rightarrow> False | Some n \<Rightarrow> n \<le> 0) entries then None
      else Some \<lparr> zones = map (\<lambda>(z, w). (z, case w of None \<Rightarrow> 1 | Some n \<Rightarrow> nat n)) entries,
                  cursor = 0 \<rparr>)"

text \<open>
  Modelled from the spec: the slots of one round of the weighted round-robin, each
  zone as many times as its weight, in the order of the list. The spec asks that a
  window of as many calls as the sum of the weights holds each zone exactly its
  weight number of times.
\<close>

definition slots :: "(string \<times> nat) list \<Rightarrow> string list" where
  "slots zs = concat (map (\<lambda>(z, w). replicate w z) zs)"

text \<open>
  Modelled from the spec: the method \<open>Next()\<close>, missing from the sources. It returns
  the zone of the slot under the cursor and moves the cursor to the next slot, back
  to the first after the last.
\<close>

definition Next :: "ZoneSelector \<Rightarrow> string \<times> ZoneSelector" where
  "Next s =
     (let ring = slots (zones s)
      in (ring ! (cursor s mod length ring), s\<lparr>cursor := (cursor s + 1) mod length ring\<rparr>))"

text \<open>\<open>n\<close> consecutive calls of \<open>Next()\<close>: the zones returned, in order, and the state left.\<close>

fun Next_calls :: "nat \<Rightarrow> ZoneSelector \<Rightarrow> string list \<times> ZoneSelector" where
  "Next_calls 0 s = ([], s)"
| "Next_calls (Suc n) s =
     (case Next s of (z, s') \<Rightarrow> (case Next_calls n s' of (zs, s'') \<Rightarrow> (z # zs, s'')))"

text \<open>The weight that a configuration gives to a zone, and the sum of all weights.\<close>

definition weight_of :: "(string \<times> nat) list \<Rightarrow> string \<Rightarrow> nat" where
  "weight_of zs z = sum_list (map snd (filter (\<lambda>p. fst p = z) zs))"

definition total_weight :: "(string \<times> nat) list \<Rightarrow> nat" where
  "total_weight zs = sum_list (map snd zs)"

section \<open>Concrete inputs\<close>

text \<open>
  Values at which the theorems below are instantiated. \<open>quote_plain\<close> is what
  \<open>%q\<close> gives for printable ASCII text without a double quote or a backslash, as
  the metric names used below are: the text between double quotes.
\<close>

definition quote_plain :: "string \<Rightarrow> string" where
  "quote_plain s = CHR 0x22 # s @ [CHR 0x22]"

definition series_with_point :: TimeSeries where
  "series_with_point =
     \<lparr> MetricType = ''m'', Points = [\<lparr> EndTime = 1, Int64Value = 5 \<rparr>] \<rparr>"

definition series_without_points :: TimeSeries where
  "series_without_points = \<lparr> MetricType = ''m'', Points = [] \<rparr>"

definition vm0 :: VM where
  "vm0 = \<lparr> VM.Name = ''vm'', VM.Project = ''p'', Network = ''default'',
           VM.ImageSpec = ''debian-cloud:debian-12'', OS = \<lparr> OS.ID = ''debian'' \<rparr>,
           VM.Zone = ''z'', VM.MachineType = ''e2-standard-4'', VM.ID = 7,
           IPAddress = ''10.0.0.1'', AlreadyDeleted = False \<rparr>"

text \<open>
  Three clouds: one in which every \<open>gcloud\<close> command succeeds, one in which every
  command is refused, one that is out of quota for the first two runs of a command.
\<close>

definition gcloud_ok :: gcloud where
  "gcloud_ok = (\<lambda>args k. (Second, None))"

definition gcloud_denied :: gcloud where
  "gcloud_denied = (\<lambda>args k. (Second, Some (ErrorString ''permission denied'')))"

definition gcloud_quota :: gcloud where
  "gcloud_quota =
     (\<lambda>args k. (Second, if k < 3 then Some (ErrorString ''Quota exceeded'') else None))"

text \<open>
  Two creation attempts: one that goes through, and one whose VM never becomes
  reachable. The environment and the options are those of the scenario of the spec.
\<close>

definition attempt_ok :: Attempt where
  "attempt_ok =
     \<lparr> uuid_New = ''0b5f6c1e-7d1a-4d0c-9a55-3f2f8f0c1a77'',
       zonePicker_Next = ''us-central1-a'',
       additionalCreateInstanceArgs =
         (\<lambda>options vm. Inr [''--image-project=debian-cloud'', ''--image-family=debian-12'']),
       RunGcloud_create = (\<lambda>args. (''[]'', None)),
       extractID = (\<lambda>stdout. Inr 42),
       extractIPAddress = (\<lambda>stdout. Inr ''10.0.0.2''),
       verifyVMCreation = (\<lambda>vm. (\<lparr> OS.ID = ''debian'' \<rparr>, None)),
       RunGcloud_delete = gcloud_ok,
       duration = Minute \<rparr>"

definition attempt_unreachable :: Attempt where
  "attempt_unreachable =
     attempt_ok\<lparr> verifyVMCreation :=
       (\<lambda>vm. (OS vm, Some (ErrorString
          ''waitForStartLinux() failed: waiting for startup timed out. Last err=EOF''))) \<rparr>"

definition env0 :: Env where
  "env0 = \<lparr> NETWORK_NAME = [], PROJECT = ''p'', INSTANCE_SIZE = [],
            sandboxPrefix = ''test-20261102-ab12c'' \<rparr>"

definition options0 :: VMOptions where
  "options0 =
     \<lparr> VMOptions.ImageSpec = ''debian-cloud:debian-12'', TimeToLive = [],
       VMOptions.Name = [], VMOptions.Project = [], VMOptions.Zone = [],
       Metadata = [], Labels = [], VMOptions.MachineType = [], ImageFamilyScope = [],
       ExtraCreateArguments = [] \<rparr>"

section \<open>Lemmas about the metrics waiters\<close>

text \<open>
  The loops are unfolded one step at a time, by hand, in the proofs below.
\<close>

declare WaitForMetricSeries_loop.simps [simp del]
declare AssertMetricMissing_loop.simps [simp del]

lemma nonEmptySeriesList_loop_yields:
  "list_all isSeries it \<Longrightarrow>
   (let n = length acc + length (filter hasPoints it) in
      if n = 0 then nonEmptySeriesList_loop it m acc = (None, None)
      else if int n < m then nonEmptySeriesList_loop it m acc = (None, Some ErrInvalidIteratorLength)
      else (\<exists>l. nonEmptySeriesList_loop it m acc = (Some l, None) \<and> length l = n))"
  by (induction it m acc rule: nonEmptySeriesList_loop.induct)
    (auto simp: Let_def split: if_splits)

lemma nonEmptySeriesList_loop_firstError:
  "firstError it = Some e \<Longrightarrow> nonEmptySeriesList_loop it m acc = (None, Some e)"
  by (induction it m acc rule: nonEmptySeriesList_loop.induct) auto

lemma nonEmptySeriesList_loop_Some:
  "nonEmptySeriesList_loop it m acc = (Some l, err) \<Longrightarrow>
   err = None \<and> l \<noteq> [] \<and> m \<le> int (length l) \<and>
   (\<forall>s\<in>set l. s \<in> set acc \<or> (Series s \<in> set it \<and> Points s \<noteq> []))"
  by (induction it m acc rule: nonEmptySeriesList_loop.induct) (auto split: if_splits)

lemma nonEmptySeriesList_empty:
  "1 \<le> m \<Longrightarrow> yieldsSeries it 0 \<Longrightarrow> nonEmptySeriesList it m = Returns (None, None)"
  using nonEmptySeriesList_loop_yields[of it "[]" m]
  by (simp add: nonEmptySeriesList_def yieldsSeries_def)

lemma nonEmptySeriesList_short:
  "yieldsSeries it n \<Longrightarrow> 0 < n \<Longrightarrow> int n < m \<Longrightarrow>
   nonEmptySeriesList it m = Returns (None, Some ErrInvalidIteratorLength)"
  using nonEmptySeriesList_loop_yields[of it "[]" m]
  by (simp add: nonEmptySeriesList_def yieldsSeries_def Let_def)

lemma nonEmptySeriesList_data:
  assumes "yieldsSeries it n" "0 < n" "1 \<le> m" "m \<le> int n"
  shows "\<exists>l. nonEmptySeriesList it m = Returns (Some l, None) \<and> length l = n"
proof -
  have "list_all isSeries it" "length (filter hasPoints it) = n"
    using assms(1) by (simp_all add: yieldsSeries_def)
  with nonEmptySeriesList_loop_yields[of it "[]" m] assms(2,4)
  have "\<exists>l. nonEmptySeriesList_loop it m [] = (Some l, None) \<and> length l = n"
    by (simp add: Let_def)
  then show ?thesis using assms(3) by (simp add: nonEmptySeriesList_def)
qed

lemma nonEmptySeriesList_fails:
  "1 \<le> m \<Longrightarrow> firstError it = Some e \<Longrightarrow> nonEmptySeriesList it m = Returns (None, Some e)"
  by (simp add: nonEmptySeriesList_def nonEmptySeriesList_loop_firstError)

lemma WaitForMetricSeries_loop_retry:
  assumes "attempt \<le> QueryMaxAttempts"
    and "nonEmptySeriesList (lookupMetric attempt) m = Returns (None, err)"
    and "err = None \<or> isRetriableLookupError err"
  shows "WaitForMetricSeries_loop fmt_q lookupMetric metric extraFilters m attempt =
         WaitForMetricSeries_loop fmt_q lookupMetric metric extraFilters m (attempt + 1)"
  using assms by (subst WaitForMetricSeries_loop.simps) auto

lemma WaitForMetricSeries_loop_exhausted:
  assumes "\<And>k. attempt \<le> k \<Longrightarrow> k \<le> QueryMaxAttempts \<Longrightarrow>
     \<exists>err. nonEmptySeriesList (lookupMetric k) m = Returns (None, err)
       \<and> (err = None \<or> isRetriableLookupError err)"
    and "attempt \<le> Suc QueryMaxAttempts"
  shows "WaitForMetricSeries_loop fmt_q lookupMetric metric extraFilters m attempt =
     Returns ((None, Some (ErrorString (''WaitForMetricSeries(metric='' @ metric
              @ '', extraFilters='' @ fmt_v_strings extraFilters @ '') failed: ''
              @ exhaustedRetriesSuffix))), QueryMaxAttempts)"
  using assms
proof (induction "Suc QueryMaxAttempts - attempt" arbitrary: attempt)
  case 0
  then have "attempt = Suc QueryMaxAttempts" by simp
  then show ?case by (subst WaitForMetricSeries_loop.simps) simp
next
  case (Suc n)
  then have le: "attempt \<le> QueryMaxAttempts" by simp
  from Suc.prems(1)[OF order_refl le] obtain err where
    e: "nonEmptySeriesList (lookupMetric attempt) m = Returns (None, err)"
       "err = None \<or> isRetriableLookupError err" by blast
  have "WaitForMetricSeries_loop fmt_q lookupMetric metric extraFilters m attempt =
        WaitForMetricSeries_loop fmt_q lookupMetric metric extraFilters m (attempt + 1)"
    using le e by (intro WaitForMetricSeries_loop_retry[where err = err]) auto
  also have "\<dots> = Returns ((None, Some (ErrorString (''WaitForMetricSeries(metric='' @ metric
              @ '', extraFilters='' @ fmt_v_strings extraFilters @ '') failed: ''
              @ exhaustedRetriesSuffix))), QueryMaxAttempts)"
    using Suc.hyps(2) Suc.prems le by (intro Suc.hyps(1)) auto
  finally show ?case .
qed

lemma WaitForMetricSeries_loop_Some:
  "WaitForMetricSeries_loop fmt_q lookupMetric metric extraFilters m attempt = Returns ((Some l, err), n)
   \<Longrightarrow> err = None \<and> nonEmptySeriesList (lookupMetric n) m = Returns (Some l, None)"
proof (induction fmt_q lookupMetric metric extraFilters m attempt
    rule: WaitForMetricSeries_loop.induct)
  case (1 fmt_q lookupMetric metric extraFilters m attempt)
  show ?case
  proof (cases "attempt \<le> QueryMaxAttempts")
    case False
    with "1.prems" show ?thesis by (subst (asm) WaitForMetricSeries_loop.simps) simp
  next
    case True
    show ?thesis
    proof (cases "nonEmptySeriesList (lookupMetric attempt) m")
      case (Panic p)
      with True "1.prems" show ?thesis by (subst (asm) WaitForMetricSeries_loop.simps) simp
    next
      case (Returns r)
      obtain tsList e where r: "r = (tsList, e)" by (cases r)
      show ?thesis
      proof (cases "tsList \<noteq> None \<and> e = None")
        case True
        with \<open>attempt \<le> QueryMaxAttempts\<close> Returns r "1.prems" show ?thesis
          by (subst (asm) WaitForMetricSeries_loop.simps) auto
      next
        case False
        note nosucc = this
        show ?thesis
        proof (cases "e \<noteq> None \<and> \<not> isRetriableLookupError e")
          case True
          with nosucc \<open>attempt \<le> QueryMaxAttempts\<close> Returns r "1.prems" show ?thesis
            by (subst (asm) WaitForMetricSeries_loop.simps) auto
        next
          case False
          have "WaitForMetricSeries_loop fmt_q lookupMetric metric extraFilters m attempt =
                WaitForMetricSeries_loop fmt_q lookupMetric metric extraFilters m (attempt + 1)"
            using nosucc False \<open>attempt \<le> QueryMaxAttempts\<close> Returns r
            by (subst WaitForMetricSeries_loop.simps) auto
          with "1.prems" have "WaitForMetricSeries_loop fmt_q lookupMetric metric extraFilters m (attempt + 1)
              = Returns ((Some l, err), n)" by simp
          then show ?thesis
            using "1.IH"[OF \<open>attempt \<le> QueryMaxAttempts\<close> Returns r[symmetric]] nosucc False
            by auto
        qed
      qed
    qed
  qed
qed


lemma isRetriableLookupError_NotFound:
  "status_FromError e = Some NotFound \<Longrightarrow> isRetriableLookupError (Some e)"
  by (simp add: isRetriableLookupError_def)

lemma AssertMetricMissing_loop_retry:
  assumes "attempt \<le> queryMaxAttemptsMetricMissing"
    and "firstError (lookupMetric attempt) = Some e"
    and "isRetriableLookupError (Some e)"
  shows "AssertMetricMissing_loop fmt_q lookupMetric metric isPrometheus attempt c =
         AssertMetricMissing_loop fmt_q lookupMetric metric isPrometheus (attempt + 1)
           (if status_FromError e = Some NotFound \<and> isPrometheus then c + 1 else c)"
  using assms nonEmptySeriesList_fails[of 1 "lookupMetric attempt" e]
  by (subst AssertMetricMissing_loop.simps) simp

lemma AssertMetricMissing_loop_empty:
  assumes "attempt \<le> queryMaxAttemptsMetricMissing"
    and "yieldsSeries (lookupMetric attempt) 0"
  shows "AssertMetricMissing_loop fmt_q lookupMetric metric isPrometheus attempt c =
         Returns (None, attempt)"
  using assms nonEmptySeriesList_empty[of 1 "lookupMetric attempt"]
  by (subst AssertMetricMissing_loop.simps) simp

lemma AssertMetricMissing_loop_data:
  assumes "attempt \<le> queryMaxAttemptsMetricMissing"
    and "yieldsSeries (lookupMetric attempt) n" and "0 < n"
  shows "AssertMetricMissing_loop fmt_q lookupMetric metric isPrometheus attempt c =
         Returns (Some (ErrorString (''AssertMetricMissing(metric='' @ fmt_q metric
           @ ''): <nil> failed: unexpectedly found data for metric'')), attempt)"
proof -
  obtain l where "nonEmptySeriesList (lookupMetric attempt) 1 = Returns (Some l, None)"
    "length l = n"
    using nonEmptySeriesList_data[of "lookupMetric attempt" n 1] assms by auto
  then show ?thesis using assms
    by (subst AssertMetricMissing_loop.simps) (simp add: fmt_v_error_def)
qed

lemma AssertMetricMissing_loop_found:
  assumes "attempt \<le> k" and "k \<le> queryMaxAttemptsMetricMissing"
    and "\<And>j. attempt \<le> j \<Longrightarrow> j < k \<Longrightarrow>
           \<exists>e. firstError (lookupMetric j) = Some e \<and> isRetriableLookupError (Some e)"
    and "yieldsSeries (lookupMetric k) n" and "0 < n"
  shows "AssertMetricMissing_loop fmt_q lookupMetric metric isPrometheus attempt c =
         Returns (Some (ErrorString (''AssertMetricMissing(metric='' @ fmt_q metric
           @ ''): <nil> failed: unexpectedly found data for metric'')), k)"
  using assms(1,3)
proof (induction "k - attempt" arbitrary: attempt c)
  case 0
  then have "attempt = k" by simp
  then show ?case
    using AssertMetricMissing_loop_data[where lookupMetric = lookupMetric and attempt = k
        and n = n] assms(2,4,5) by simp
next
  case (Suc d)
  then have lt: "attempt < k" by simp
  then obtain e where e: "firstError (lookupMetric attempt) = Some e"
    "isRetriableLookupError (Some e)" using Suc.prems(2)[of attempt] by auto
  have le: "attempt \<le> queryMaxAttemptsMetricMissing" using lt assms(2) by simp
  show ?case
    unfolding AssertMetricMissing_loop_retry[where lookupMetric = lookupMetric
          and attempt = attempt, OF le e]
    using Suc.hyps(2) lt Suc.prems(2) by (intro Suc.hyps(1)) auto
qed

lemma AssertMetricMissing_loop_all_NotFound:
  assumes "\<And>j. attempt \<le> j \<Longrightarrow> j \<le> queryMaxAttemptsMetricMissing \<Longrightarrow>
           \<exists>e. firstError (lookupMetric j) = Some e \<and> status_FromError e = Some NotFound"
    and "attempt \<le> Suc queryMaxAttemptsMetricMissing"
    and "c + (Suc queryMaxAttemptsMetricMissing - attempt) = queryMaxAttemptsMetricMissing"
  shows "AssertMetricMissing_loop fmt_q lookupMetric metric True attempt c =
         Returns (None, queryMaxAttemptsMetricMissing)"
  using assms
proof (induction "Suc queryMaxAttemptsMetricMissing - attempt" arbitrary: attempt c)
  case 0
  then have "attempt = Suc queryMaxAttemptsMetricMissing" "c = queryMaxAttemptsMetricMissing"
    by simp_all
  then show ?case by (subst AssertMetricMissing_loop.simps) simp
next
  case (Suc d)
  then have le: "attempt \<le> queryMaxAttemptsMetricMissing" by simp
  then obtain e where e: "firstError (lookupMetric attempt) = Some e"
    "status_FromError e = Some NotFound" using Suc.prems(1)[of attempt] by auto
  show ?case
    unfolding AssertMetricMissing_loop_retry[where lookupMetric = lookupMetric
        and attempt = attempt, OF le e(1) isRetriableLookupError_NotFound[OF e(2)]]
    using Suc.hyps(2) Suc.prems le e(2) by (intro Suc.hyps(1)) auto
qed

lemma AssertMetricMissing_loop_no_success:
  assumes "\<And>j. attempt \<le> j \<Longrightarrow> j \<le> queryMaxAttemptsMetricMissing \<Longrightarrow>
           firstError (lookupMetric j) \<noteq> None"
    and "attempt \<le> Suc queryMaxAttemptsMetricMissing"
  shows "\<exists>e n. AssertMetricMissing_loop fmt_q lookupMetric metric False attempt c = Returns (Some e, n)"
  using assms
proof (induction "Suc queryMaxAttemptsMetricMissing - attempt" arbitrary: attempt c)
  case 0
  then have "attempt = Suc queryMaxAttemptsMetricMissing" by simp
  then show ?case by (subst AssertMetricMissing_loop.simps) simp
next
  case (Suc d)
  then have le: "attempt \<le> queryMaxAttemptsMetricMissing" by simp
  then obtain e where e: "firstError (lookupMetric attempt) = Some e"
    using Suc.prems(1)[of attempt] by auto
  show ?case
  proof (cases "isRetriableLookupError (Some e)")
    case True
    show ?thesis
      unfolding AssertMetricMissing_loop_retry[where lookupMetric = lookupMetric
          and attempt = attempt, OF le e True]
      using Suc.hyps(2) Suc.prems le by (intro Suc.hyps(1)) auto
  next
    case False
    then show ?thesis
      using le e nonEmptySeriesList_fails[of 1 "lookupMetric attempt" e]
      by (subst AssertMetricMissing_loop.simps) simp
  qed
qed

section \<open>Claims about the metrics waiters\<close>

text \<open>
  C4, as amended. With \<open>minimumRequiredSeries = 2\<close> and every one of the
  \<open>QueryMaxAttempts\<close> iterators yielding exactly one series with points, each
  evaluation \<open>nonEmptySeriesList\<close> returns \<open>ErrInvalidIteratorLength\<close> after running
  through its iterator once; \<open>isRetriableLookupError\<close> classes that error as
  retriable, so \<open>WaitForMetricSeries\<close> queries the backend \<open>QueryMaxAttempts\<close> times
  and then returns a nil slice with the "exhausted retries" error.
\<close>

theorem WaitForMetricSeries_too_few_series:
  assumes "\<forall>k\<in>{1..QueryMaxAttempts}. yieldsSeries (lookupMetric k) 1"
  shows "(\<forall>k\<in>{1..QueryMaxAttempts}.
            nonEmptySeriesList (lookupMetric k) 2 = Returns (None, Some ErrInvalidIteratorLength))
       \<and> isRetriableLookupError (Some ErrInvalidIteratorLength)
       \<and> WaitForMetricSeries fmt_q lookupMetric metric extraFilters 2 =
           Returns ((None, Some (ErrorString (''WaitForMetricSeries(metric='' @ metric
              @ '', extraFilters='' @ fmt_v_strings extraFilters @ '') failed: ''
              @ exhaustedRetriesSuffix))), QueryMaxAttempts)"
proof -
  have each: "nonEmptySeriesList (lookupMetric k) 2 = Returns (None, Some ErrInvalidIteratorLength)"
    if "1 \<le> k" "k \<le> QueryMaxAttempts" for k
    using assms that by (intro nonEmptySeriesList_short[where n = 1]) auto
  have retriable: "isRetriableLookupError (Some ErrInvalidIteratorLength)"
    by (simp add: isRetriableLookupError_def)
  have "WaitForMetricSeries_loop fmt_q lookupMetric metric extraFilters 2 1 =
      Returns ((None, Some (ErrorString (''WaitForMetricSeries(metric='' @ metric
              @ '', extraFilters='' @ fmt_v_strings extraFilters @ '') failed: ''
              @ exhaustedRetriesSuffix))), QueryMaxAttempts)"
    using each retriable by (intro WaitForMetricSeries_loop_exhausted) auto
  then show ?thesis using each retriable by (simp add: WaitForMetricSeries_def)
qed

theorem WaitForMetricSeries_too_few_series_witness:
  "yieldsSeries [Series series_without_points, Series series_with_point] 1
   \<and> nonEmptySeriesList [Series series_without_points, Series series_with_point] 2 =
       Returns (None, Some ErrInvalidIteratorLength)
   \<and> WaitForMetricSeries quote_plain (\<lambda>k. [Series series_without_points, Series series_with_point])
        ''cpu'' [''a'', ''b''] 2 =
       Returns ((None, Some (ErrorString
         ''WaitForMetricSeries(metric=cpu, extraFilters=[a b]) failed: exhausted retries'')), 40)"
proof -
  have y: "yieldsSeries [Series series_without_points, Series series_with_point] 1"
    by (simp add: yieldsSeries_def series_with_point_def series_without_points_def)
  then have h: "\<forall>k\<in>{1..QueryMaxAttempts}.
      yieldsSeries ((\<lambda>k. [Series series_without_points, Series series_with_point]) k) 1"
    by simp
  note t = WaitForMetricSeries_too_few_series[OF h, where fmt_q = quote_plain
      and metric = "''cpu''" and extraFilters = "[''a'', ''b'']"]
  have e: "(1::nat) \<in> {1..QueryMaxAttempts}"
    by (simp add: QueryMaxAttempts_def)
  from t e have "nonEmptySeriesList [Series series_without_points, Series series_with_point] 2 =
       Returns (None, Some ErrInvalidIteratorLength)"
    by blast
  moreover from t have
    "WaitForMetricSeries quote_plain (\<lambda>k. [Series series_without_points, Series series_with_point])
        ''cpu'' [''a'', ''b''] 2 =
       Returns ((None, Some (ErrorString
         ''WaitForMetricSeries(metric=cpu, extraFilters=[a b]) failed: exhausted retries'')), 40)"
    by (simp add: fmt_v_strings_def exhaustedRetriesSuffix_def QueryMaxAttempts_def)
  ultimately show ?thesis using y by simp
qed

text \<open>
  C4 as stated fails: with one series with points per query and a minimum of two,
  \<open>WaitForMetricSeries\<close> returns the "exhausted retries" error after 40 queries, not
  \<open>ErrInvalidIteratorLength\<close> after one.
\<close>

theorem WaitForMetricSeries_too_few_series_counterexample:
  "yieldsSeries [Series series_with_point] 1
   \<and> WaitForMetricSeries quote_plain (\<lambda>k. [Series series_with_point]) ''m'' [] 2 =
       Returns ((None, Some (ErrorString
         ''WaitForMetricSeries(metric=m, extraFilters=[]) failed: exhausted retries'')), 40)
   \<and> WaitForMetricSeries quote_plain (\<lambda>k. [Series series_with_point]) ''m'' [] 2 \<noteq>
       Returns ((None, Some ErrInvalidIteratorLength), 1)"
proof -
  have y: "yieldsSeries [Series series_with_point] 1"
    by (simp add: yieldsSeries_def series_with_point_def)
  have "nonEmptySeriesList [Series series_with_point] 2 =
      Returns (None, Some ErrInvalidIteratorLength)"
    by (simp add: nonEmptySeriesList_def series_with_point_def)
  then have "WaitForMetricSeries_loop quote_plain (\<lambda>k. [Series series_with_point]) ''m'' [] 2 1 =
      Returns ((None, Some (ErrorString (''WaitForMetricSeries(metric='' @ ''m''
              @ '', extraFilters='' @ fmt_v_strings [] @ '') failed: ''
              @ exhaustedRetriesSuffix))), QueryMaxAttempts)"
    by (intro WaitForMetricSeries_loop_exhausted)
      (simp_all add: isRetriableLookupError_def QueryMaxAttempts_def)
  then have "WaitForMetricSeries quote_plain (\<lambda>k. [Series series_with_point]) ''m'' [] 2 =
       Returns ((None, Some (ErrorString
         ''WaitForMetricSeries(metric=m, extraFilters=[]) failed: exhausted retries'')), 40)"
    by (simp add: WaitForMetricSeries_def fmt_v_strings_def exhaustedRetriesSuffix_def
        QueryMaxAttempts_def)
  with y show ?thesis by simp
qed

text \<open>
  C5, as amended. When every one of the \<open>QueryMaxAttempts\<close> iterators ends without
  an error and without a series that has points, each evaluation
  \<open>nonEmptySeriesList\<close> returns (nil, nil), and \<open>WaitForMetricSeries\<close>, after
  \<open>QueryMaxAttempts\<close> queries, returns a nil slice together with the non-nil
  "exhausted retries" error.
\<close>

theorem WaitForMetricSeries_no_data:
  assumes "\<forall>k\<in>{1..QueryMaxAttempts}. yieldsSeries (lookupMetric k) 0"
    and "1 \<le> minimumRequiredSeries"
  shows "(\<forall>k\<in>{1..QueryMaxAttempts}.
            nonEmptySeriesList (lookupMetric k) minimumRequiredSeries = Returns (None, None))
       \<and> WaitForMetricSeries fmt_q lookupMetric metric extraFilters minimumRequiredSeries =
           Returns ((None, Some (ErrorString (''WaitForMetricSeries(metric='' @ metric
              @ '', extraFilters='' @ fmt_v_strings extraFilters @ '') failed: ''
              @ exhaustedRetriesSuffix))), QueryMaxAttempts)"
proof -
  have each: "nonEmptySeriesList (lookupMetric k) minimumRequiredSeries = Returns (None, None)"
    if "1 \<le> k" "k \<le> QueryMaxAttempts" for k
    using assms that by (intro nonEmptySeriesList_empty) auto
  have "WaitForMetricSeries_loop fmt_q lookupMetric metric extraFilters minimumRequiredSeries 1 =
      Returns ((None, Some (ErrorString (''WaitForMetricSeries(metric='' @ metric
              @ '', extraFilters='' @ fmt_v_strings extraFilters @ '') failed: ''
              @ exhaustedRetriesSuffix))), QueryMaxAttempts)"
    using each by (intro WaitForMetricSeries_loop_exhausted) auto
  then show ?thesis using each by (simp add: WaitForMetricSeries_def)
qed

theorem WaitForMetricSeries_no_data_witness:
  "yieldsSeries [Series series_without_points] 0
   \<and> nonEmptySeriesList [Series series_without_points] 1 = Returns (None, None)
   \<and> WaitForMetricSeries quote_plain (\<lambda>k. [Series series_without_points]) ''cpu'' [] 1 =
       Returns ((None, Some (ErrorString
         ''WaitForMetricSeries(metric=cpu, extraFilters=[]) failed: exhausted retries'')), 40)"
proof -
  have y: "yieldsSeries [Series series_without_points] 0"
    by (simp add: yieldsSeries_def series_without_points_def)
  then have h: "\<forall>k\<in>{1..QueryMaxAttempts}.
      yieldsSeries ((\<lambda>k. [Series series_without_points]) k) 0"
    by simp
  have m: "(1::int) \<le> 1" by simp
  note t = WaitForMetricSeries_no_data[OF h m, where fmt_q = quote_plain
      and metric = "''cpu''" and extraFilters = "[]"]
  have e: "(1::nat) \<in> {1..QueryMaxAttempts}"
    by (simp add: QueryMaxAttempts_def)
  from t e have "nonEmptySeriesList [Series series_without_points] 1 = Returns (None, None)"
    by blast
  moreover from t have
    "WaitForMetricSeries quote_plain (\<lambda>k. [Series series_without_points]) ''cpu'' [] 1 =
       Returns ((None, Some (ErrorString
         ''WaitForMetricSeries(metric=cpu, extraFilters=[]) failed: exhausted retries'')), 40)"
    by (simp add: fmt_v_strings_def exhaustedRetriesSuffix_def QueryMaxAttempts_def)
  ultimately show ?thesis using y by simp
qed

text \<open>
  C5 as stated fails: with an empty answer to every query, \<open>WaitForMetricSeries\<close>
  returns an error, not (nil, nil).
\<close>

theorem WaitForMetricSeries_no_data_counterexample:
  "yieldsSeries [] 0
   \<and> WaitForMetricSeries quote_plain (\<lambda>k. []) ''m'' [] 1 =
       Returns ((None, Some (ErrorString
         ''WaitForMetricSeries(metric=m, extraFilters=[]) failed: exhausted retries'')), 40)
   \<and> (\<forall>n. WaitForMetricSeries quote_plain (\<lambda>k. []) ''m'' [] 1 \<noteq> Returns ((None, None), n))"
proof -
  have "nonEmptySeriesList [] 1 = Returns (None, None)"
    by (simp add: nonEmptySeriesList_def)
  then have "WaitForMetricSeries_loop quote_plain (\<lambda>k. []) ''m'' [] 1 1 =
      Returns ((None, Some (ErrorString (''WaitForMetricSeries(metric='' @ ''m''
              @ '', extraFilters='' @ fmt_v_strings [] @ '') failed: ''
              @ exhaustedRetriesSuffix))), QueryMaxAttempts)"
    by (intro WaitForMetricSeries_loop_exhausted) (simp_all add: QueryMaxAttempts_def)
  then have "WaitForMetricSeries quote_plain (\<lambda>k. []) ''m'' [] 1 =
       Returns ((None, Some (ErrorString
         ''WaitForMetricSeries(metric=m, extraFilters=[]) failed: exhausted retries'')), 40)"
    by (simp add: WaitForMetricSeries_def fmt_v_strings_def exhaustedRetriesSuffix_def
        QueryMaxAttempts_def)
  then show ?thesis by (simp add: yieldsSeries_def)
qed

text \<open>
  C10. Every time series in a list returned by \<open>nonEmptySeriesList\<close> has at least one
  point and is one of the series the iterator yielded; the same holds for the list
  returned by \<open>WaitForMetricSeries\<close> (for the iterator of the query that succeeded)
  and for the series returned by \<open>WaitForMetric\<close>. A returned list is never empty.
\<close>

theorem nonEmptySeriesList_points:
  "(nonEmptySeriesList it m = Returns (Some l, err) \<longrightarrow>
      l \<noteq> [] \<and> (\<forall>s\<in>set l. Points s \<noteq> [] \<and> Series s \<in> set it))
   \<and> (WaitForMetricSeries fmt_q lookupMetric metric extraFilters m = Returns ((Some l', err'), n) \<longrightarrow>
      l' \<noteq> [] \<and> (\<forall>s\<in>set l'. Points s \<noteq> [] \<and> Series s \<in> set (lookupMetric n)))
   \<and> (WaitForMetric fmt_q lookupMetric metric extraFilters = Returns (Some s', err'') \<longrightarrow>
      Points s' \<noteq> [])"
proof -
  have a: "l \<noteq> [] \<and> (\<forall>s\<in>set l. Points s \<noteq> [] \<and> Series s \<in> set it)"
    if "nonEmptySeriesList it m = Returns (Some l, err)" for it m l err
  proof -
    from that have "nonEmptySeriesList_loop it m [] = (Some l, err)"
      by (simp add: nonEmptySeriesList_def split: if_splits)
    from nonEmptySeriesList_loop_Some[OF this] show ?thesis by simp
  qed
  have b: "l \<noteq> [] \<and> (\<forall>s\<in>set l. Points s \<noteq> [] \<and> Series s \<in> set (lookupMetric n))"
    if "WaitForMetricSeries fmt_q lookupMetric metric extraFilters m = Returns ((Some l, err), n)"
    for fmt_q lookupMetric metric extraFilters m l err n
  proof -
    from that have "nonEmptySeriesList (lookupMetric n) m = Returns (Some l, None)"
      using WaitForMetricSeries_loop_Some[where fmt_q = fmt_q and lookupMetric = lookupMetric
          and metric = metric and extraFilters = extraFilters and m = m and attempt = 1
          and l = l and err = err and n = n]
      by (simp add: WaitForMetricSeries_def)
    from a[OF this] show ?thesis .
  qed
  have c: "Points s' \<noteq> []"
    if w: "WaitForMetric fmt_q lookupMetric metric extraFilters = Returns (Some s', err'')"
  proof -
    from w obtain ss n where
      "WaitForMetricSeries fmt_q lookupMetric metric extraFilters 1 = Returns ((Some (s' # ss), None), n)"
      by (auto simp: WaitForMetric_def split: result.splits prod.splits if_splits option.splits
          list.splits)
    from b[OF this] show ?thesis by simp
  qed
  show ?thesis using a b c by blast
qed

theorem nonEmptySeriesList_points_witness:
  "nonEmptySeriesList [Series series_without_points, Series series_with_point] 1 =
     Returns (Some [series_with_point], None)
   \<and> WaitForMetricSeries quote_plain (\<lambda>k. [Series series_without_points, Series series_with_point])
       ''m'' [] 1 = Returns ((Some [series_with_point], None), 1)
   \<and> WaitForMetric quote_plain (\<lambda>k. [Series series_without_points, Series series_with_point]) ''m'' [] =
       Returns (Some series_with_point, None)
   \<and> Points series_with_point \<noteq> []"
proof -
  have a: "nonEmptySeriesList [Series series_without_points, Series series_with_point] 1 =
     Returns (Some [series_with_point], None)"
    by (simp add: nonEmptySeriesList_def series_with_point_def series_without_points_def)
  have b: "WaitForMetricSeries quote_plain (\<lambda>k. [Series series_without_points, Series series_with_point])
       ''m'' [] 1 = Returns ((Some [series_with_point], None), 1)"
    by (simp add: WaitForMetricSeries_def WaitForMetricSeries_loop.simps a QueryMaxAttempts_def)
  have c: "WaitForMetric quote_plain (\<lambda>k. [Series series_without_points, Series series_with_point]) ''m'' [] =
       Returns (Some series_with_point, None)"
    by (simp add: WaitForMetric_def b)
  show ?thesis
    using a b c nonEmptySeriesList_points[where
        it = "[Series series_without_points, Series series_with_point]" and m = 1
        and l = "[series_with_point]" and err = None and fmt_q = quote_plain
        and lookupMetric = "\<lambda>k. [Series series_without_points, Series series_with_point]"
        and metric = "''m''" and extraFilters = "[]" and l' = "[series_with_point]"
        and err' = None and n = 1 and s' = series_with_point and err'' = None]
    by simp
qed

text \<open>
  C8. \<open>AssertMetricMissing\<close> returns nil when every query attempt is confirmed empty
  (it returns after the first such attempt); when an attempt yields series with
  points, it returns the "unexpectedly found data" error at that attempt (an attempt
  is made only when all earlier ones ended in a retriable error), its message built
  with the rendering \<open>%q\<close> of the metric name, whatever that rendering is; in Prometheus
  mode, when every one of the \<open>queryMaxAttemptsMetricMissing\<close> attempts fails with a
  NotFound status, it returns nil; and in non-Prometheus mode, when no attempt
  succeeds, it returns an error.
\<close>

theorem AssertMetricMissing_outcomes:
  "((\<forall>k\<in>{1..queryMaxAttemptsMetricMissing}. yieldsSeries (lookupMetric k) 0) \<longrightarrow>
      AssertMetricMissing fmt_q lookupMetric metric isPrometheus = Returns (None, 1))
   \<and> (k \<in> {1..queryMaxAttemptsMetricMissing} \<and> 0 < n \<and> yieldsSeries (lookupMetric k) n
       \<and> (\<forall>j\<in>{1..<k}. \<exists>e. firstError (lookupMetric j) = Some e
                                \<and> isRetriableLookupError (Some e)) \<longrightarrow>
      AssertMetricMissing fmt_q lookupMetric metric isPrometheus =
        Returns (Some (ErrorString (''AssertMetricMissing(metric='' @ fmt_q metric
           @ ''): <nil> failed: unexpectedly found data for metric'')), k))
   \<and> ((\<forall>k\<in>{1..queryMaxAttemptsMetricMissing}.
          \<exists>e. firstError (lookupMetric k) = Some e \<and> status_FromError e = Some NotFound) \<longrightarrow>
      AssertMetricMissing fmt_q lookupMetric metric True =
        Returns (None, queryMaxAttemptsMetricMissing))
   \<and> ((\<forall>k\<in>{1..queryMaxAttemptsMetricMissing}. firstError (lookupMetric k) \<noteq> None) \<longrightarrow>
      (\<exists>e n. AssertMetricMissing fmt_q lookupMetric metric False = Returns (Some e, n)))"
proof -
  have a: "AssertMetricMissing fmt_q lookupMetric metric isPrometheus = Returns (None, 1)"
    if "\<forall>k\<in>{1..queryMaxAttemptsMetricMissing}. yieldsSeries (lookupMetric k) 0"
  proof -
    have "yieldsSeries (lookupMetric 1) 0"
      using that by (simp add: queryMaxAttemptsMetricMissing_def)
    then show ?thesis
      unfolding AssertMetricMissing_def
      by (intro AssertMetricMissing_loop_empty) (simp_all add: queryMaxAttemptsMetricMissing_def)
  qed
  have b: "AssertMetricMissing fmt_q lookupMetric metric isPrometheus =
        Returns (Some (ErrorString (''AssertMetricMissing(metric='' @ fmt_q metric
           @ ''): <nil> failed: unexpectedly found data for metric'')), k)"
    if "k \<in> {1..queryMaxAttemptsMetricMissing}" "0 < n" "yieldsSeries (lookupMetric k) n"
      "\<forall>j\<in>{1..<k}. \<exists>e. firstError (lookupMetric j) = Some e \<and> isRetriableLookupError (Some e)"
    unfolding AssertMetricMissing_def
    using that by (intro AssertMetricMissing_loop_found[where n = n]) auto
  have c: "AssertMetricMissing fmt_q lookupMetric metric True =
        Returns (None, queryMaxAttemptsMetricMissing)"
    if "\<forall>k\<in>{1..queryMaxAttemptsMetricMissing}.
          \<exists>e. firstError (lookupMetric k) = Some e \<and> status_FromError e = Some NotFound"
    unfolding AssertMetricMissing_def
    using that by (intro AssertMetricMissing_loop_all_NotFound) auto
  have d: "\<exists>e n. AssertMetricMissing fmt_q lookupMetric metric False = Returns (Some e, n)"
    if "\<forall>k\<in>{1..queryMaxAttemptsMetricMissing}. firstError (lookupMetric k) \<noteq> None"
    unfolding AssertMetricMissing_def
    using that by (intro AssertMetricMissing_loop_no_success) auto
  show ?thesis using a b c d by blast
qed

theorem AssertMetricMissing_outcomes_witness:
  "yieldsSeries [Series series_without_points] 0
   \<and> AssertMetricMissing quote_plain (\<lambda>k. [Series series_without_points]) ''m'' False = Returns (None, 1)
   \<and> firstError [Fail (StatusError Internal ''backend error'')] =
       Some (StatusError Internal ''backend error'')
   \<and> isRetriableLookupError (Some (StatusError Internal ''backend error''))
   \<and> yieldsSeries [Series series_with_point] 1
   \<and> AssertMetricMissing
        quote_plain (\<lambda>k. if k < 3 then [Fail (StatusError Internal ''backend error'')]
              else [Series series_with_point]) ''m'' False =
       Returns (Some (ErrorString
         (''AssertMetricMissing(metric='' @ quote_plain ''m''
            @ ''): <nil> failed: unexpectedly found data for metric'')), 3)
   \<and> status_FromError (StatusError NotFound ''no descriptor'') = Some NotFound
   \<and> AssertMetricMissing quote_plain (\<lambda>k. [Fail (StatusError NotFound ''no descriptor'')]) ''m'' True =
       Returns (None, 5)
   \<and> (\<exists>e n. AssertMetricMissing quote_plain (\<lambda>k. [Fail (StatusError NotFound ''no descriptor'')]) ''m'' False
        = Returns (Some e, n))"
proof -
  have y0: "yieldsSeries [Series series_without_points] 0"
    by (simp add: yieldsSeries_def series_without_points_def)
  have y1: "yieldsSeries [Series series_with_point] 1"
    by (simp add: yieldsSeries_def series_with_point_def)
  have r: "isRetriableLookupError (Some (StatusError Internal ''backend error''))"
    by (simp add: isRetriableLookupError_def)
  have three: "(3::nat) \<in> {1..queryMaxAttemptsMetricMissing}"
    by (simp add: queryMaxAttemptsMetricMissing_def)
  have t1: "AssertMetricMissing quote_plain (\<lambda>k. [Series series_without_points]) ''m'' False =
      Returns (None, 1)"
    using AssertMetricMissing_outcomes[where fmt_q = quote_plain
        and lookupMetric = "\<lambda>k. [Series series_without_points]"
        and metric = "''m''" and isPrometheus = False] y0
    by blast
  have t2: "AssertMetricMissing
        quote_plain (\<lambda>k. if k < 3 then [Fail (StatusError Internal ''backend error'')]
              else [Series series_with_point]) ''m'' False =
       Returns (Some (ErrorString
         (''AssertMetricMissing(metric='' @ quote_plain ''m''
            @ ''): <nil> failed: unexpectedly found data for metric'')), 3)"
    using AssertMetricMissing_outcomes[where fmt_q = quote_plain and lookupMetric =
          "\<lambda>k. if k < 3 then [Fail (StatusError Internal ''backend error'')]
                else [Series series_with_point]"
        and metric = "''m''" and isPrometheus = False and k = 3 and n = 1] y1 r three
    by simp
  have t3: "AssertMetricMissing quote_plain (\<lambda>k. [Fail (StatusError NotFound ''no descriptor'')]) ''m'' True =
       Returns (None, 5)"
    using AssertMetricMissing_outcomes[where fmt_q = quote_plain and lookupMetric =
          "\<lambda>k. [Fail (StatusError NotFound ''no descriptor'')]" and metric = "''m''"]
    by (simp add: queryMaxAttemptsMetricMissing_def)
  have t4: "\<exists>e n. AssertMetricMissing quote_plain (\<lambda>k. [Fail (StatusError NotFound ''no descriptor'')])
        ''m'' False = Returns (Some e, n)"
    using AssertMetricMissing_outcomes[where fmt_q = quote_plain and lookupMetric =
          "\<lambda>k. [Fail (StatusError NotFound ''no descriptor'')]" and metric = "''m''"]
    by simp
  show ?thesis using y0 y1 r t1 t2 t3 t4 by simp
qed

section \<open>Lemmas about the retry loop and deletion\<close>

declare Retry_WithMaxRetries.simps [simp del]
declare Retry_WithContext.simps [simp del]

lemma Retry_WithMaxRetries_calls_lower:
  "numTries < snd (snd (Retry_WithMaxRetries operation interval maxTries deadline now numTries))"
proof (induction operation interval maxTries deadline now numTries
    rule: Retry_WithMaxRetries.induct)
  case (1 operation interval maxTries deadline now numTries)
  obtain d err where op: "operation (Suc numTries) = (d, err)"
    by (cases "operation (Suc numTries)")
  show ?case
  proof (cases "\<exists>e. err = Some e \<and> as_PermanentError e = None \<and> \<not> deadline \<le> now + d
      \<and> \<not> maxTries \<le> numTries \<and> \<not> deadline \<le> now + d + interval")
    case True
    then obtain e where e: "err = Some e" "as_PermanentError e = None" "\<not> deadline \<le> now + d"
      "\<not> maxTries \<le> numTries" "\<not> deadline \<le> now + d + interval" by blast
    have "Suc numTries < snd (snd (Retry_WithMaxRetries operation interval maxTries deadline
        (now + d + interval) (Suc numTries)))"
      using "1.IH"[OF op[symmetric] e] by simp
    then show ?thesis
      by (subst Retry_WithMaxRetries.simps) (simp add: op e)
  next
    case False
    then show ?thesis
      by (subst Retry_WithMaxRetries.simps) (auto simp: op split: option.splits)
  qed
qed

lemma Retry_WithMaxRetries_calls_upper:
  "numTries \<le> maxTries \<Longrightarrow>
   snd (snd (Retry_WithMaxRetries operation interval maxTries deadline now numTries)) \<le> maxTries + 1"
proof (induction operation interval maxTries deadline now numTries
    rule: Retry_WithMaxRetries.induct)
  case (1 operation interval maxTries deadline now numTries)
  obtain d err where op: "operation (Suc numTries) = (d, err)"
    by (cases "operation (Suc numTries)")
  show ?case
  proof (cases "\<exists>e. err = Some e \<and> as_PermanentError e = None \<and> \<not> deadline \<le> now + d
      \<and> \<not> maxTries \<le> numTries \<and> \<not> deadline \<le> now + d + interval")
    case True
    then obtain e where e: "err = Some e" "as_PermanentError e = None" "\<not> deadline \<le> now + d"
      "\<not> maxTries \<le> numTries" "\<not> deadline \<le> now + d + interval" by blast
    have "snd (snd (Retry_WithMaxRetries operation interval maxTries deadline
        (now + d + interval) (Suc numTries))) \<le> maxTries + 1"
      using "1.IH"[OF op[symmetric] e] e(4) by simp
    then show ?thesis
      by (subst Retry_WithMaxRetries.simps) (simp add: op e)
  next
    case False
    then show ?thesis using "1.prems"
      by (subst Retry_WithMaxRetries.simps) (auto simp: op split: option.splits)
  qed
qed

lemma DeleteInstance_cases:
  "\<not> AlreadyDeleted vm \<Longrightarrow>
   \<exists>err n. 1 \<le> n \<and> n \<le> 11 \<and>
     DeleteInstance RunGcloud vm =
       (if err = None then vm\<lparr>AlreadyDeleted := True\<rparr> else vm, err,
        replicate n (deleteInstanceArgs vm))"
proof -
  assume nd: "\<not> AlreadyDeleted vm"
  define op where "op = (\<lambda>attempt. case RunGcloud (deleteInstanceArgs vm) attempt of
                           (d, err) \<Rightarrow> (d, handleDeleteError err (int attempt)))"
  obtain err t calls where r: "Retry_WithMaxRetries op (30 * Second) 10 (10 * Minute) 0 0 = (err, t, calls)"
    by (cases "Retry_WithMaxRetries op (30 * Second) 10 (10 * Minute) 0 0")
  have "0 < calls" using Retry_WithMaxRetries_calls_lower[of 0 op "30 * Second" 10 "10 * Minute" 0] r by simp
  moreover have "calls \<le> 11"
    using Retry_WithMaxRetries_calls_upper[of 0 10 op "30 * Second" "10 * Minute" 0] r by simp
  ultimately show ?thesis
    using nd r unfolding DeleteInstance_def Let_def op_def[symmetric]
    by (intro exI[of _ err] exI[of _ calls]) simp
qed

lemma DeleteManagedInstanceGroupVM_cases:
  assumes nd: "\<not> AlreadyDeleted (VM migVM)"
  shows "\<exists>err n m. 1 \<le> n \<and> n \<le> 11 \<and> m \<le> 11 \<and> (err = None \<longrightarrow> 1 \<le> m) \<and>
     DeleteManagedInstanceGroupVM RunGcloud migVM =
       (if err = None then migVM\<lparr>VM := (VM migVM)\<lparr>AlreadyDeleted := True\<rparr>\<rparr> else migVM, err,
        replicate n (deleteMIGArgs migVM) @ replicate m (deleteTemplateArgs migVM))"
proof -
  define op1 where "op1 = (\<lambda>attempt. case RunGcloud (deleteMIGArgs migVM) attempt of
                              (d, err) \<Rightarrow>
                                (d, if err = None then None
                                    else handleDeleteError err (int attempt)))"
  define op2 where "op2 = (\<lambda>attempt. case RunGcloud (deleteTemplateArgs migVM) attempt of
                              (d, err) \<Rightarrow> (d, handleDeleteError err (int attempt)))"
  obtain err t calls where r: "Retry_WithMaxRetries op1 (30 * Second) 10 (10 * Minute) 0 0 = (err, t, calls)"
    by (cases "Retry_WithMaxRetries op1 (30 * Second) 10 (10 * Minute) 0 0")
  have c1: "1 \<le> calls"
    using Retry_WithMaxRetries_calls_lower[of 0 op1 "30 * Second" 10 "10 * Minute" 0] r by simp
  have c2: "calls \<le> 11"
    using Retry_WithMaxRetries_calls_upper[of 0 10 op1 "30 * Second" "10 * Minute" 0] r by simp
  show ?thesis
  proof (cases err)
    case (Some e)
    have "DeleteManagedInstanceGroupVM RunGcloud migVM =
        (migVM, err, replicate calls (deleteMIGArgs migVM) @ replicate 0 (deleteTemplateArgs migVM))"
      using nd r Some unfolding DeleteManagedInstanceGroupVM_def Let_def op1_def[symmetric]
      by simp
    then show ?thesis using c1 c2 Some
      by (intro exI[of _ err] exI[of _ calls] exI[of _ 0]) simp
  next
    case None
    obtain err' t' calls' where r': "Retry_WithMaxRetries op2 (30 * Second) 10 (10 * Minute) t 0 = (err', t', calls')"
      by (cases "Retry_WithMaxRetries op2 (30 * Second) 10 (10 * Minute) t 0")
    have d1: "1 \<le> calls'"
      using Retry_WithMaxRetries_calls_lower[of 0 op2 "30 * Second" 10 "10 * Minute" t] r' by simp
    have d2: "calls' \<le> 11"
      using Retry_WithMaxRetries_calls_upper[of 0 10 op2 "30 * Second" "10 * Minute" t] r' by simp
    have "DeleteManagedInstanceGroupVM RunGcloud migVM =
        (if err' = None then migVM\<lparr>VM := (VM migVM)\<lparr>AlreadyDeleted := True\<rparr>\<rparr> else migVM, err',
         replicate calls (deleteMIGArgs migVM) @ replicate calls' (deleteTemplateArgs migVM))"
      using nd r r' None
      unfolding DeleteManagedInstanceGroupVM_def Let_def op1_def[symmetric] op2_def[symmetric]
      by simp
    then show ?thesis using c1 c2 d1 d2
      by (intro exI[of _ err'] exI[of _ calls] exI[of _ calls']) simp
  qed
qed

lemma DeleteInstance_denied:
  "DeleteInstance gcloud_denied vm0 =
     (vm0, Some (ErrorString ''permission denied''), [deleteInstanceArgs vm0])"
  by (simp add: DeleteInstance_def Let_def Retry_WithMaxRetries.simps handleDeleteError_def
      vm0_def gcloud_denied_def)

lemma DeleteInstance_quota:
  "DeleteInstance gcloud_quota vm0 =
     (vm0\<lparr>AlreadyDeleted := True\<rparr>, None,
      [deleteInstanceArgs vm0, deleteInstanceArgs vm0, deleteInstanceArgs vm0])"
  by (simp add: DeleteInstance_def Let_def Retry_WithMaxRetries.simps handleDeleteError_def
      vm0_def gcloud_quota_def Second_def Minute_def numeral_3_eq_3)

lemma DeleteManagedInstanceGroupVM_ok:
  "DeleteManagedInstanceGroupVM gcloud_ok \<lparr> VM = vm0 \<rparr> =
     (\<lparr> VM = vm0\<lparr>AlreadyDeleted := True\<rparr> \<rparr>, None,
      [[''compute'', ''instance-groups'', ''managed'', ''delete'', ''vm-mig'', ''--project=p'',
        ''--zone=z''],
       [''compute'', ''instance-templates'', ''delete'', ''vm-tmpl'', ''--project=p'']])"
  by (simp add: DeleteManagedInstanceGroupVM_def Let_def Retry_WithMaxRetries.simps
      handleDeleteError_def vm0_def gcloud_ok_def deleteMIGArgs_def deleteTemplateArgs_def
      ManagedInstanceGroupName_def InstanceTemplateName_def)

text \<open>The timer depends on the durations of the calls only.\<close>

lemma timerFires_cong:
  "(\<And>k. fst (op1 k) = fst (op2 k)) \<Longrightarrow> timerFires op1 i j = timerFires op2 i j"
  by (induction j) simp_all

text \<open>
  When \<open>backoff.Retry\<close> returns nil: the run at which it returns is within the
  budget of retries and its error is nil, every earlier run ended in an error that
  is not permanent, and the wait after it was over before the deadline. And whenever
  there is such a run, nil is returned.
\<close>

lemma Retry_WithMaxRetries_success:
  assumes "n \<le> maxTries"
  shows "(fst (Retry_WithMaxRetries operation interval maxTries deadline
                 (timerFires operation interval n) n) = None \<longrightarrow>
            (let k = snd (snd (Retry_WithMaxRetries operation interval maxTries deadline
                                (timerFires operation interval n) n))
             in n < k \<and> k \<le> Suc maxTries \<and> snd (operation k) = None
                \<and> (\<forall>j. n < j \<and> j < k \<longrightarrow>
                      (\<exists>e. snd (operation j) = Some e \<and> as_PermanentError e = None)
                      \<and> timerFires operation interval j < deadline)))
       \<and> ((\<exists>k. n < k \<and> k \<le> Suc maxTries \<and> snd (operation k) = None
                \<and> (\<forall>j. n < j \<and> j < k \<longrightarrow>
                      (\<exists>e. snd (operation j) = Some e \<and> as_PermanentError e = None)
                      \<and> timerFires operation interval j < deadline)) \<longrightarrow>
            fst (Retry_WithMaxRetries operation interval maxTries deadline
                 (timerFires operation interval n) n) = None)"
  using assms
proof (induction "maxTries - n" arbitrary: n rule: less_induct)
  case less
  let ?T = "timerFires operation interval"
  let ?R = "\<lambda>n. Retry_WithMaxRetries operation interval maxTries deadline (?T n) n"
  let ?retr = "\<lambda>j. (\<exists>e. snd (operation j) = Some e \<and> as_PermanentError e = None)
                      \<and> ?T j < deadline"
  let ?P = "\<lambda>n k. n < k \<and> k \<le> Suc maxTries \<and> snd (operation k) = None
                \<and> (\<forall>j. n < j \<and> j < k \<longrightarrow> ?retr j)"
  obtain d err where op: "operation (Suc n) = (d, err)"
    by (cases "operation (Suc n)")
  have T: "?T (Suc n) = ?T n + d + interval" by (simp add: op)
  show ?case
  proof (cases err)
    case None
    have R: "?R n = (None, ?T n + d, Suc n)"
      by (subst Retry_WithMaxRetries.simps) (simp add: op None)
    have "?P n (Suc n)" using less.prems by (auto simp: op None)
    then show ?thesis unfolding R Let_def by simp
  next
    case (Some e)
    have noP_if: "\<not> ?P n k" if "\<not> ?retr (Suc n)" for k
    proof
      assume P: "?P n k"
      then have "k \<noteq> Suc n" using op Some by auto
      with P have "n < Suc n \<and> Suc n < k" by auto
      with P have "?retr (Suc n)" by blast
      with that show False by blast
    qed
    show ?thesis
    proof (cases "as_PermanentError e = None \<and> \<not> deadline \<le> ?T n + d
        \<and> \<not> maxTries \<le> n \<and> \<not> deadline \<le> ?T n + d + interval")
      case True
      then have c: "as_PermanentError e = None" "\<not> deadline \<le> ?T n + d"
        "\<not> maxTries \<le> n" "\<not> deadline \<le> ?T n + d + interval" by simp_all
      have R: "?R n = ?R (Suc n)"
        by (subst Retry_WithMaxRetries.simps) (simp add: op Some c)
      have IH: "(fst (?R (Suc n)) = None \<longrightarrow> (let k = snd (snd (?R (Suc n))) in ?P (Suc n) k))
          \<and> ((\<exists>k. ?P (Suc n) k) \<longrightarrow> fst (?R (Suc n)) = None)"
        using c(3) by (intro less.hyps) auto
      have retr: "?retr (Suc n)" using c op Some T by simp
      have up: "?P n k" if "?P (Suc n) k" for k
      proof -
        have "?retr j" if "n < j" "j < k" for j
        proof (cases "j = Suc n")
          case True
          then show ?thesis using retr by simp
        next
          case False
          with that \<open>?P (Suc n) k\<close> show ?thesis by auto
        qed
        with that show ?thesis by auto
      qed
      have down: "?P (Suc n) k" if "?P n k" for k
      proof -
        from that have "k \<noteq> Suc n" using op Some by auto
        with that show ?thesis by auto
      qed
      show ?thesis
        unfolding R using IH up down unfolding Let_def by blast
    next
      case False
      have nR: "fst (?R n) \<noteq> None"
        using False
        by (subst Retry_WithMaxRetries.simps) (auto simp: op Some split: option.splits)
      have noP: "\<not> ?P n k" for k
      proof (cases "maxTries \<le> n")
        case True
        show ?thesis
        proof
          assume P: "?P n k"
          with True have "k = Suc n" by auto
          with P op Some show False by simp
        qed
      next
        case mt: False
        have "\<not> ?retr (Suc n)"
          using False mt op Some T by auto
        then show ?thesis by (rule noP_if)
      qed
      show ?thesis unfolding Let_def using nR noP by blast
    qed
  qed
qed


text \<open>
  The closure \<open>tryDelete\<close> in terms of the answers of \<open>gcloud\<close>, and with it the
  success of \<open>DeleteInstance\<close>.
\<close>

lemma tryDelete_deleted:
  "(snd (case RunGcloud args k of (d, err) \<Rightarrow> (d, handleDeleteError err (int k))) = None) =
   runDeleted RunGcloud args k"
  by (cases "RunGcloud args k")
    (auto simp: runDeleted_def handleDeleteError_def split: option.splits)

lemma tryDelete_retried:
  "(\<exists>e. snd (case RunGcloud args j of (d, err) \<Rightarrow> (d, handleDeleteError err (int j))) = Some e
        \<and> as_PermanentError e = None) =
   runRetried RunGcloud args j"
  by (cases "RunGcloud args j")
    (auto simp: runRetried_def handleDeleteError_def split: option.splits)

lemma DeleteInstance_success:
  assumes nd: "\<not> AlreadyDeleted vm"
  shows "(fst (snd (DeleteInstance RunGcloud vm)) = None) =
           (\<exists>k. deletionSucceededAt RunGcloud (deleteInstanceArgs vm) k)"
    and "fst (snd (DeleteInstance RunGcloud vm)) = None \<Longrightarrow>
           deletionSucceededAt RunGcloud (deleteInstanceArgs vm)
             (length (snd (snd (DeleteInstance RunGcloud vm))))"
proof -
  let ?args = "deleteInstanceArgs vm"
  define op where "op = (\<lambda>attempt. case RunGcloud ?args attempt of
                           (d, err) \<Rightarrow> (d, handleDeleteError err (int attempt)))"
  define R where "R = Retry_WithMaxRetries op (30 * Second) 10 (10 * Minute) 0 0"
  define Q where "Q k = (0 < k \<and> k \<le> Suc 10 \<and> snd (op k) = None
            \<and> (\<forall>j. 0 < j \<and> j < k \<longrightarrow>
                  (\<exists>e. snd (op j) = Some e \<and> as_PermanentError e = None)
                  \<and> timerFires op (30 * Second) j < 10 * Minute))" for k
  have T: "timerFires op i j = timerFires (RunGcloud ?args) i j" for i j
    by (rule timerFires_cong) (simp add: op_def split: prod.splits)
  have del: "(snd (op k) = None) = runDeleted RunGcloud ?args k" for k
    unfolding op_def by (rule tryDelete_deleted)
  have ret: "(\<exists>e. snd (op j) = Some e \<and> as_PermanentError e = None) = runRetried RunGcloud ?args j"
    for j
    unfolding op_def by (rule tryDelete_retried)
  have P: "Q k = deletionSucceededAt RunGcloud ?args k" for k
    unfolding Q_def deletionSucceededAt_def del ret T by auto
  have D: "DeleteInstance RunGcloud vm =
      (if fst R = None then vm\<lparr>AlreadyDeleted := True\<rparr> else vm, fst R,
       replicate (snd (snd R)) ?args)"
    using nd unfolding DeleteInstance_def Let_def op_def[symmetric] R_def
    by (simp split: prod.splits)
  have le: "(0::nat) \<le> 10" by simp
  note L = Retry_WithMaxRetries_success[OF le, where operation = op
      and interval = "30 * Second" and deadline = "10 * Minute",
      unfolded timerFires.simps(1) Let_def, folded R_def, folded Q_def]
  have S1: "Q (snd (snd R))" if "fst R = None" using L that by blast
  have S2: "fst R = None" if "Q k" for k using L that by blast
  show "(fst (snd (DeleteInstance RunGcloud vm)) = None) =
           (\<exists>k. deletionSucceededAt RunGcloud ?args k)"
    unfolding D using S1 S2 P by auto
  show "deletionSucceededAt RunGcloud ?args (length (snd (snd (DeleteInstance RunGcloud vm))))"
    if "fst (snd (DeleteInstance RunGcloud vm)) = None"
    using that S1 P unfolding D by simp
qed

section \<open>Claims about deletion\<close>

text \<open>
  C2. Deletion is idempotent: for a \<open>VM\<close> (or a \<open>ManagedInstanceGroupVM\<close>) whose
  \<open>AlreadyDeleted\<close> flag is true, \<open>DeleteInstance\<close> (or
  \<open>DeleteManagedInstanceGroupVM\<close>) issues no command, returns nil and leaves the
  object as it is, whatever the cloud would answer.
\<close>

theorem delete_already_deleted:
  "(AlreadyDeleted vm \<longrightarrow> DeleteInstance RunGcloud vm = (vm, None, []))
   \<and> (AlreadyDeleted (VM migVM) \<longrightarrow>
        DeleteManagedInstanceGroupVM RunGcloud migVM = (migVM, None, []))"
  by (simp add: DeleteInstance_def DeleteManagedInstanceGroupVM_def)

theorem delete_already_deleted_witness:
  "AlreadyDeleted (vm0\<lparr>AlreadyDeleted := True\<rparr>)
   \<and> DeleteInstance gcloud_denied (vm0\<lparr>AlreadyDeleted := True\<rparr>) =
       (vm0\<lparr>AlreadyDeleted := True\<rparr>, None, [])
   \<and> DeleteManagedInstanceGroupVM gcloud_denied \<lparr> VM = vm0\<lparr>AlreadyDeleted := True\<rparr> \<rparr> =
       (\<lparr> VM = vm0\<lparr>AlreadyDeleted := True\<rparr> \<rparr>, None, [])"
  using delete_already_deleted[where vm = "vm0\<lparr>AlreadyDeleted := True\<rparr>"
      and RunGcloud = gcloud_denied
      and migVM = "\<lparr> VM = vm0\<lparr>AlreadyDeleted := True\<rparr> \<rparr>"]
  by simp

text \<open>
  C9. After \<open>DeleteInstance\<close> the flag \<open>AlreadyDeleted\<close> is true exactly when nil is
  returned, and every command issued is the deletion command of this VM. For a VM
  that was not yet deleted, the flag is set, and nil returned, exactly when the
  deletion with its retries succeeded by the answers of \<open>gcloud\<close>: some run within the
  eleven runs was answered with no error (or, after the first, with "not found"),
  every run before it with a quota or 50x error, its wait of 30 seconds over
  before the 10 minutes were; and then that run is the last command issued. When an
  error is returned the VM is unchanged, its flag is false, and a further call of
  \<open>DeleteInstance\<close> issues a deletion command again, in any cloud. When nil is
  returned for a VM that was not yet deleted, the flag has been set and at least
  one deletion command was issued.
\<close>

theorem DeleteInstance_flag:
  "(case DeleteInstance RunGcloud vm of (vm', err, cmds) \<Rightarrow>
      AlreadyDeleted vm' = (err = None)
      \<and> cmds = replicate (length cmds) (deleteInstanceArgs vm)
      \<and> (\<not> AlreadyDeleted vm \<longrightarrow>
           AlreadyDeleted vm' = (\<exists>k. deletionSucceededAt RunGcloud (deleteInstanceArgs vm) k)
           \<and> (err = None) = (\<exists>k. deletionSucceededAt RunGcloud (deleteInstanceArgs vm) k)
           \<and> (err = None \<longrightarrow>
                deletionSucceededAt RunGcloud (deleteInstanceArgs vm) (length cmds)))
      \<and> (err \<noteq> None \<longrightarrow>
           vm' = vm \<and> \<not> AlreadyDeleted vm'
           \<and> (\<forall>RunGcloud'. snd (snd (DeleteInstance RunGcloud' vm')) \<noteq> []))
      \<and> (err = None \<and> \<not> AlreadyDeleted vm \<longrightarrow>
           vm' = vm\<lparr>AlreadyDeleted := True\<rparr> \<and> cmds \<noteq> []))"
proof (cases "AlreadyDeleted vm")
  case True
  then show ?thesis by (simp add: DeleteInstance_def)
next
  case False
  let ?args = "deleteInstanceArgs vm"
  from DeleteInstance_cases[OF False, of RunGcloud]
  obtain err n where n: "1 \<le> n" and
    r: "DeleteInstance RunGcloud vm =
       (if err = None then vm\<lparr>AlreadyDeleted := True\<rparr> else vm, err,
        replicate n ?args)" by blast
  have again: "snd (snd (DeleteInstance RunGcloud' vm)) \<noteq> []" for RunGcloud'
    using DeleteInstance_cases[OF False, of RunGcloud'] by auto
  have iff: "(err = None) = (\<exists>k. deletionSucceededAt RunGcloud ?args k)"
    using DeleteInstance_success(1)[OF False, of RunGcloud] by (simp add: r)
  have at: "deletionSucceededAt RunGcloud ?args n" if "err = None"
    using DeleteInstance_success(2)[OF False, of RunGcloud] that by (simp add: r)
  have flag: "AlreadyDeleted (if err = None then vm\<lparr>AlreadyDeleted := True\<rparr> else vm)
      = (err = None)"
    using False by simp
  show ?thesis
  proof (cases "err = None")
    case True
    with iff at have ex: "\<exists>k. deletionSucceededAt RunGcloud ?args k"
      and atn: "deletionSucceededAt RunGcloud ?args n" by simp_all
    from n have ne: "replicate n ?args \<noteq> []" by auto
    show ?thesis
      unfolding r prod.case length_replicate using True False ex atn ne by simp
  next
    case err: False
    with iff have nex: "\<not> (\<exists>k. deletionSucceededAt RunGcloud ?args k)" by simp
    from err obtain e where e: "err = Some e" by auto
    show ?thesis
      unfolding r e prod.case length_replicate using False nex again by simp
  qed
qed

theorem DeleteInstance_flag_witness:
  "(case DeleteInstance gcloud_denied vm0 of (vm', err, cmds) \<Rightarrow>
      err = Some (ErrorString ''permission denied'') \<and> cmds = [deleteInstanceArgs vm0]
      \<and> vm' = vm0 \<and> \<not> AlreadyDeleted vm'
      \<and> \<not> (\<exists>k. deletionSucceededAt gcloud_denied (deleteInstanceArgs vm0) k)
      \<and> snd (snd (DeleteInstance gcloud_quota vm')) \<noteq> [])
   \<and> (case DeleteInstance gcloud_quota vm0 of (vm', err, cmds) \<Rightarrow>
      err = None \<and> AlreadyDeleted vm' \<and> vm' = vm0\<lparr>AlreadyDeleted := True\<rparr>
      \<and> cmds = [deleteInstanceArgs vm0, deleteInstanceArgs vm0, deleteInstanceArgs vm0]
      \<and> deletionSucceededAt gcloud_quota (deleteInstanceArgs vm0) 3)"
  using DeleteInstance_flag[where RunGcloud = gcloud_denied and vm = vm0]
    DeleteInstance_flag[where RunGcloud = gcloud_quota and vm = vm0]
  by (simp add: DeleteInstance_denied DeleteInstance_quota numeral_3_eq_3)

text \<open>
  C6, as amended. For an object not yet deleted, \<open>DeleteManagedInstanceGroupVM\<close>
  issues deletion commands for two cloud resources, in dependency order: the managed
  instance group first (at least one and at most eleven runs of its command), then
  the instance template (at most eleven runs); no command deletes the VM instance
  by itself. When nil is returned the template command has been issued too and
  the flag \<open>AlreadyDeleted\<close> is set.
\<close>

theorem DeleteManagedInstanceGroupVM_commands:
  assumes "\<not> AlreadyDeleted (VM migVM)"
  shows "\<exists>n m. snd (snd (DeleteManagedInstanceGroupVM RunGcloud migVM)) =
            replicate n (deleteMIGArgs migVM) @ replicate m (deleteTemplateArgs migVM)
          \<and> 1 \<le> n \<and> n \<le> 11 \<and> m \<le> 11
          \<and> (fst (snd (DeleteManagedInstanceGroupVM RunGcloud migVM)) = None \<longrightarrow>
               1 \<le> m \<and> AlreadyDeleted (VM (fst (DeleteManagedInstanceGroupVM RunGcloud migVM))))
          \<and> deleteInstanceArgs (VM migVM)
               \<notin> set (snd (snd (DeleteManagedInstanceGroupVM RunGcloud migVM)))"
proof -
  from DeleteManagedInstanceGroupVM_cases[OF assms, of RunGcloud]
  obtain err n m where b: "1 \<le> n" "n \<le> 11" "m \<le> 11" "err = None \<longrightarrow> 1 \<le> m"
    and r: "DeleteManagedInstanceGroupVM RunGcloud migVM =
       (if err = None then migVM\<lparr>VM := (VM migVM)\<lparr>AlreadyDeleted := True\<rparr>\<rparr> else migVM, err,
        replicate n (deleteMIGArgs migVM) @ replicate m (deleteTemplateArgs migVM))"
    by blast
  have "deleteInstanceArgs (VM migVM) \<noteq> deleteMIGArgs migVM"
    "deleteInstanceArgs (VM migVM) \<noteq> deleteTemplateArgs migVM"
    by (simp_all add: deleteInstanceArgs_def deleteMIGArgs_def deleteTemplateArgs_def)
  then have "deleteInstanceArgs (VM migVM)
      \<notin> set (replicate n (deleteMIGArgs migVM) @ replicate m (deleteTemplateArgs migVM))"
    by auto
  with b show ?thesis
    by (intro exI[of _ n] exI[of _ m]) (simp add: r)
qed

theorem DeleteManagedInstanceGroupVM_commands_witness:
  "\<not> AlreadyDeleted (VM \<lparr> VM = vm0 \<rparr>)
   \<and> (\<exists>n m. snd (snd (DeleteManagedInstanceGroupVM gcloud_ok \<lparr> VM = vm0 \<rparr>)) =
            replicate n (deleteMIGArgs \<lparr> VM = vm0 \<rparr>)
              @ replicate m (deleteTemplateArgs \<lparr> VM = vm0 \<rparr>)
          \<and> 1 \<le> n \<and> 1 \<le> m)
   \<and> fst (snd (DeleteManagedInstanceGroupVM gcloud_ok \<lparr> VM = vm0 \<rparr>)) = None
   \<and> AlreadyDeleted (VM (fst (DeleteManagedInstanceGroupVM gcloud_ok \<lparr> VM = vm0 \<rparr>)))"
proof -
  have h: "\<not> AlreadyDeleted (VM \<lparr> VM = vm0 \<rparr>)" by (simp add: vm0_def)
  have ok: "fst (snd (DeleteManagedInstanceGroupVM gcloud_ok \<lparr> VM = vm0 \<rparr>)) = None"
    by (simp add: DeleteManagedInstanceGroupVM_ok)
  from DeleteManagedInstanceGroupVM_commands[OF h, where RunGcloud = gcloud_ok] ok h
  show ?thesis
    by auto
qed

text \<open>
  C6 as stated fails: in a cloud where every command succeeds, two commands are
  issued, for the group and for the template, and none for the instance.
\<close>

theorem DeleteManagedInstanceGroupVM_three_deletions_counterexample:
  "snd (snd (DeleteManagedInstanceGroupVM gcloud_ok \<lparr> VM = vm0 \<rparr>)) =
     [[''compute'', ''instance-groups'', ''managed'', ''delete'', ''vm-mig'', ''--project=p'',
       ''--zone=z''],
      [''compute'', ''instance-templates'', ''delete'', ''vm-tmpl'', ''--project=p'']]
   \<and> length (snd (snd (DeleteManagedInstanceGroupVM gcloud_ok \<lparr> VM = vm0 \<rparr>))) \<noteq> 3
   \<and> deleteInstanceArgs vm0
       \<notin> set (snd (snd (DeleteManagedInstanceGroupVM gcloud_ok \<lparr> VM = vm0 \<rparr>)))"
  by (simp add: DeleteManagedInstanceGroupVM_ok deleteInstanceArgs_def)

text \<open>
  C7, as amended. An error whose message contains "not found", and neither "Quota"
  nor "Error 50", is turned into nil by \<open>handleDeleteError\<close> exactly when the attempt
  number is greater than 1; at the first attempt it is wrapped as a permanent error,
  and \<open>DeleteInstance\<close> then returns it after that single attempt, leaving the VM
  unchanged.
\<close>

theorem handleDeleteError_not_found:
  assumes "Contains (Error err) ''not found''"
    and "\<not> Contains (Error err) ''Quota''" and "\<not> Contains (Error err) ''Error 50''"
  shows "(handleDeleteError (Some err) attempt = None) = (1 < attempt)
       \<and> (attempt \<le> 1 \<longrightarrow> handleDeleteError (Some err) attempt = Some (PermanentError err))
       \<and> (\<not> AlreadyDeleted vm \<and> snd (RunGcloud (deleteInstanceArgs vm) 1) = Some err \<longrightarrow>
            DeleteInstance RunGcloud vm = (vm, Some err, [deleteInstanceArgs vm]))"
proof -
  have a: "(handleDeleteError (Some err) attempt = None) = (1 < attempt)"
    using assms by (simp add: handleDeleteError_def)
  have b: "handleDeleteError (Some err) a = Some (PermanentError err)" if "a \<le> 1" for a
    using assms that by (simp add: handleDeleteError_def)
  have c: "DeleteInstance RunGcloud vm = (vm, Some err, [deleteInstanceArgs vm])"
    if nd: "\<not> AlreadyDeleted vm" and r1: "snd (RunGcloud (deleteInstanceArgs vm) 1) = Some err"
  proof -
    obtain d where "RunGcloud (deleteInstanceArgs vm) (Suc 0) = (d, Some err)"
      using r1 by (cases "RunGcloud (deleteInstanceArgs vm) 1") simp
    then show ?thesis using nd b[of 1]
      by (simp add: DeleteInstance_def Let_def Retry_WithMaxRetries.simps[of _ _ _ _ _ 0])
  qed
  show ?thesis using a b c by blast
qed

theorem handleDeleteError_not_found_witness:
  "Contains (Error (ErrorString ''resource not found'')) ''not found''
   \<and> handleDeleteError (Some (ErrorString ''resource not found'')) 2 = None
   \<and> handleDeleteError (Some (ErrorString ''resource not found'')) 1 =
       Some (PermanentError (ErrorString ''resource not found''))
   \<and> DeleteInstance (\<lambda>args k. (Second, Some (ErrorString ''resource not found''))) vm0 =
       (vm0, Some (ErrorString ''resource not found''), [deleteInstanceArgs vm0])"
proof -
  have h: "Contains (Error (ErrorString ''resource not found'')) ''not found''"
    "\<not> Contains (Error (ErrorString ''resource not found'')) ''Quota''"
    "\<not> Contains (Error (ErrorString ''resource not found'')) ''Error 50''"
    by simp_all
  have v: "\<not> AlreadyDeleted vm0" by (simp add: vm0_def)
  show ?thesis
    using h(1) v
      handleDeleteError_not_found[OF h, where attempt = 2 and vm = vm0
        and RunGcloud = "\<lambda>args k. (Second, Some (ErrorString ''resource not found''))"]
      handleDeleteError_not_found[OF h, where attempt = 1 and vm = vm0
        and RunGcloud = "\<lambda>args k. (Second, Some (ErrorString ''resource not found''))"]
    by simp
qed

text \<open>
  C7 as stated fails: a message that contains "not found" and also "Quota" is
  returned for another try at the second attempt, not turned into nil.
\<close>

theorem handleDeleteError_not_found_counterexample:
  "\<not> (\<forall>err attempt. Contains (Error err) ''not found'' \<longrightarrow>
        (handleDeleteError (Some err) attempt = None) = (1 < attempt))"
proof
  assume "\<forall>err attempt. Contains (Error err) ''not found'' \<longrightarrow>
        (handleDeleteError (Some err) attempt = None) = (1 < attempt)"
  then have "Contains (Error (ErrorString ''Quota limit not found'')) ''not found'' \<longrightarrow>
      (handleDeleteError (Some (ErrorString ''Quota limit not found'')) 2 = None) = ((1::int) < 2)"
    by blast
  then show False by (simp add: handleDeleteError_def)
qed

section \<open>Lemmas about creation\<close>

lemma multierr_Append_Some:
  "multierr_Append (Some e) x \<noteq> None" "\<exists>y. multierr_Append (Some e) x = Some y"
  by (cases x; simp)+

lemma fill_and_verify_exactly_one:
  "fill_and_verify w vm stdout = (vm', r, e) \<Longrightarrow> (r = None) = (e \<noteq> None)"
  by (auto simp: fill_and_verify_def Let_def split: sum.splits prod.splits option.splits)

lemma attemptCreateInstance_deferred_exactly_one:
  assumes "(r = None) = (e \<noteq> None)"
  shows "(fst (attemptCreateInstance_deferred w (vm, r, e)) = None) =
         (snd (attemptCreateInstance_deferred w (vm, r, e)) \<noteq> None)"
proof (cases e)
  case None
  with assms show ?thesis by (simp add: attemptCreateInstance_deferred_def)
next
  case (Some x)
  obtain vm' deleteErr cmds where
    "DeleteInstance (RunGcloud_delete w) vm = (vm', deleteErr, cmds)"
    by (cases "DeleteInstance (RunGcloud_delete w) vm")
  with Some show ?thesis
    by (simp add: attemptCreateInstance_deferred_def multierr_Append_Some)
qed

lemma attemptCreateInstance_deferred_fill:
  "(fst (attemptCreateInstance_deferred w (fill_and_verify w vm stdout)) = None) =
   (snd (attemptCreateInstance_deferred w (fill_and_verify w vm stdout)) \<noteq> None)"
proof -
  obtain vm' r e where f: "fill_and_verify w vm stdout = (vm', r, e)"
    by (cases "fill_and_verify w vm stdout")
  show ?thesis
    unfolding f
    by (rule attemptCreateInstance_deferred_exactly_one[OF fill_and_verify_exactly_one[OF f]])
qed

lemma attemptCreateInstance_exactly_one:
  "(fst (attemptCreateInstance env w options) = None) =
   (snd (attemptCreateInstance env w options) \<noteq> None)"
  unfolding attemptCreateInstance_def Let_def
  by (simp add: attemptCreateInstance_deferred_fill split: sum.split prod.split option.split)

lemma attemptCreateManagedInstanceGroupVM_deferred_exactly_one:
  assumes "(r = None) = (e \<noteq> None)"
  shows "(fst (attemptCreateManagedInstanceGroupVM_deferred w (migVM, r, e)) = None) =
         (snd (attemptCreateManagedInstanceGroupVM_deferred w (migVM, r, e)) \<noteq> None)"
proof (cases e)
  case None
  with assms show ?thesis by (simp add: attemptCreateManagedInstanceGroupVM_deferred_def)
next
  case (Some x)
  obtain migVM' deleteErr cmds where
    "DeleteManagedInstanceGroupVM (RunGcloud_delete w) migVM = (migVM', deleteErr, cmds)"
    by (cases "DeleteManagedInstanceGroupVM (RunGcloud_delete w) migVM")
  with Some show ?thesis
    by (simp add: attemptCreateManagedInstanceGroupVM_deferred_def multierr_Append_Some)
qed

lemma attemptCreateManagedInstanceGroupVM_steps_exactly_one:
  "attemptCreateManagedInstanceGroupVM_steps w migVM = (migVM', r, e) \<Longrightarrow>
   (r = None) = (e \<noteq> None)"
  unfolding attemptCreateManagedInstanceGroupVM_steps_def Let_def
  by (auto split: prod.splits option.splits dest: fill_and_verify_exactly_one)

lemma attemptCreateManagedInstanceGroupVM_deferred_steps:
  "(fst (attemptCreateManagedInstanceGroupVM_deferred w
           (attemptCreateManagedInstanceGroupVM_steps w migVM)) = None) =
   (snd (attemptCreateManagedInstanceGroupVM_deferred w
           (attemptCreateManagedInstanceGroupVM_steps w migVM)) \<noteq> None)"
proof -
  obtain migVM' r e where
    f: "attemptCreateManagedInstanceGroupVM_steps w migVM = (migVM', r, e)"
    by (cases "attemptCreateManagedInstanceGroupVM_steps w migVM")
  show ?thesis
    unfolding f
    by (rule attemptCreateManagedInstanceGroupVM_deferred_exactly_one[OF
          attemptCreateManagedInstanceGroupVM_steps_exactly_one[OF f]])
qed

lemma attemptCreateManagedInstanceGroupVM_exactly_one:
  "(fst (attemptCreateManagedInstanceGroupVM env w options) = None) =
   (snd (attemptCreateManagedInstanceGroupVM env w options) \<noteq> None)"
  unfolding attemptCreateManagedInstanceGroupVM_def Let_def
  by (simp add: attemptCreateManagedInstanceGroupVM_deferred_steps
      split: sum.split prod.split option.split)

lemma Retry_WithContext_success:
  "(\<And>k. (fst (snd (operation k)) = None) = (snd (snd (operation k)) \<noteq> None)) \<Longrightarrow>
   snd (Retry_WithContext operation deadline now calls) = None \<Longrightarrow>
   fst (Retry_WithContext operation deadline now calls) \<noteq> None"
proof (induction operation deadline now calls rule: Retry_WithContext.induct)
  case (1 operation deadline now calls)
  obtain d v err where op: "operation (Suc calls) = (d, v, err)"
    by (cases "operation (Suc calls)")
  show ?case
  proof (cases "\<exists>e. err = Some e \<and> as_PermanentError e = None \<and> \<not> deadline \<le> now + d
      \<and> \<not> deadline \<le> now + d + Minute")
    case True
    then obtain e where e: "err = Some e" "as_PermanentError e = None" "\<not> deadline \<le> now + d"
      "\<not> deadline \<le> now + d + Minute" by blast
    have eq: "Retry_WithContext operation deadline now calls =
        Retry_WithContext operation deadline (now + d + Minute) (Suc calls)"
      by (subst Retry_WithContext.simps) (simp add: op e)
    show ?thesis
      using "1.IH"[OF op[symmetric] refl e "1.prems"(1)] "1.prems"(2) unfolding eq by simp
  next
    case False
    have "err = None \<Longrightarrow> v \<noteq> None" using "1.prems"(1)[of "Suc calls"] unfolding op by simp
    with False "1.prems"(2) show ?thesis
      by (subst Retry_WithContext.simps, subst (asm) Retry_WithContext.simps)
        (auto simp: op split: option.splits if_splits)
  qed
qed

lemma attemptCreateInstance_ok:
  "attemptCreateInstance env0 attempt_ok options0 =
     (Some \<lparr> VM.Name = ''test-20261102-ab12c-0b5f6c1e-7d1a-4d0c-9a55-3f2f8f0c1a77'',
             VM.Project = ''p'', Network = ''default'',
             VM.ImageSpec = ''debian-cloud:debian-12'', OS = \<lparr> OS.ID = ''debian'' \<rparr>,
             VM.Zone = ''us-central1-a'', VM.MachineType = ''e2-standard-4'', VM.ID = 42,
             IPAddress = ''10.0.0.2'', AlreadyDeleted = False \<rparr>, None)"
  by (simp add: attemptCreateInstance_def attemptCreateInstance_deferred_def fill_and_verify_def
      createVMFromVMOptions_def Let_def env0_def attempt_ok_def options0_def IsARM_def)

lemma attemptCreateInstance_unreachable:
  "attemptCreateInstance env0 attempt_unreachable options0 =
     (None, Some (ErrorString
        ''waitForStartLinux() failed: waiting for startup timed out. Last err=EOF''))"
  by (simp add: attemptCreateInstance_def attemptCreateInstance_deferred_def fill_and_verify_def
      createVMFromVMOptions_def Let_def env0_def attempt_ok_def attempt_unreachable_def
      options0_def IsARM_def DeleteInstance_def gcloud_ok_def Retry_WithMaxRetries.simps
      handleDeleteError_def)

section \<open>Claim about creation\<close>

text \<open>
  C1. Each of the four creation functions returns either a resource and a nil error
  or a nil resource and an error: exactly one of the two results is non-nil, in
  every environment, for every answer of the cloud and for every deadline of the
  caller's context.
\<close>

theorem creation_exactly_one:
  "(fst (attemptCreateInstance env w options) = None) =
     (snd (attemptCreateInstance env w options) \<noteq> None)
   \<and> (fst (attemptCreateManagedInstanceGroupVM env w options) = None) =
     (snd (attemptCreateManagedInstanceGroupVM env w options) \<noteq> None)
   \<and> (fst (CreateInstance env world origDeadline options) = None) =
     (snd (CreateInstance env world origDeadline options) \<noteq> None)
   \<and> (fst (CreateManagedInstanceGroupVM env world origDeadline options) = None) =
     (snd (CreateManagedInstanceGroupVM env world origDeadline options) \<noteq> None)"
proof -
  have r: "(fst (case Retry_WithContext operation deadline 0 0 of
                   (v, err) \<Rightarrow> if err \<noteq> None then (None, err) else (v, None)) = None) =
           (snd (case Retry_WithContext operation deadline 0 0 of
                   (v, err) \<Rightarrow> if err \<noteq> None then (None, err) else (v, None)) \<noteq> None)"
    if "\<And>k. (fst (snd (operation k)) = None) = (snd (snd (operation k)) \<noteq> None)"
    for operation :: "nat \<Rightarrow> Duration \<times> 'a option \<times> error option" and deadline
    using Retry_WithContext_success[of operation deadline 0 0, OF that]
    by (cases "Retry_WithContext operation deadline 0 0") auto
  have c1: "(fst (CreateInstance env world origDeadline options) = None) =
     (snd (CreateInstance env world origDeadline options) \<noteq> None)"
    unfolding CreateInstance_def Let_def
    apply (rule r)
    subgoal for k
      using attemptCreateInstance_exactly_one[of env "world k" options]
      by (cases "attemptCreateInstance env (world k) options") (auto split: option.splits)
    done
  have c2: "(fst (CreateManagedInstanceGroupVM env world origDeadline options) = None) =
     (snd (CreateManagedInstanceGroupVM env world origDeadline options) \<noteq> None)"
    unfolding CreateManagedInstanceGroupVM_def Let_def
    apply (rule r)
    subgoal for k
      using attemptCreateManagedInstanceGroupVM_exactly_one[of env "world k" options]
      by (cases "attemptCreateManagedInstanceGroupVM env (world k) options")
        (auto split: option.splits)
    done
  show ?thesis
    using attemptCreateInstance_exactly_one attemptCreateManagedInstanceGroupVM_exactly_one c1 c2
    by blast
qed

theorem creation_exactly_one_witness:
  "fst (attemptCreateInstance env0 attempt_ok options0) \<noteq> None
   \<and> snd (attemptCreateInstance env0 attempt_ok options0) = None
   \<and> fst (attemptCreateInstance env0 attempt_unreachable options0) = None
   \<and> snd (attemptCreateInstance env0 attempt_unreachable options0) \<noteq> None
   \<and> fst (CreateInstance env0 (\<lambda>k. attempt_ok) None options0) \<noteq> None
   \<and> snd (CreateInstance env0 (\<lambda>k. attempt_ok) None options0) = None
   \<and> fst (CreateInstance env0 (\<lambda>k. attempt_unreachable) None options0) = None
   \<and> snd (CreateInstance env0 (\<lambda>k. attempt_unreachable) None options0) \<noteq> None"
proof -
  have a: "snd (CreateInstance env0 (\<lambda>k. attempt_ok) None options0) = None"
    by (simp add: CreateInstance_def Let_def attemptCreateInstance_ok
        Retry_WithContext.simps[of _ _ _ 0])
  have n: "\<not> shouldRetryCreateVM (ErrorString
        ''waitForStartLinux() failed: waiting for startup timed out. Last err=EOF'') options0"
    by (simp add: shouldRetryCreateVM_def IsSUSEImageSpec_def IsWindowsCore_def IsWindows_def
        options0_def prepareSLESMessage_def)
  have b: "snd (CreateInstance env0 (\<lambda>k. attempt_unreachable) None options0) \<noteq> None"
    by (simp add: CreateInstance_def Let_def attemptCreateInstance_unreachable n
        Retry_WithContext.simps[of _ _ _ 0])
  show ?thesis
    using a b
      creation_exactly_one[where env = env0 and w = attempt_ok and options = options0
        and world = "\<lambda>k. attempt_ok" and origDeadline = None]
      creation_exactly_one[where env = env0 and w = attempt_unreachable and options = options0
        and world = "\<lambda>k. attempt_unreachable" and origDeadline = None]
    by (simp add: attemptCreateInstance_ok attemptCreateInstance_unreachable)
qed

section \<open>Lemmas about the Zone Selector\<close>

lemma length_slots: "length (slots zs) = total_weight zs"
  by (induction zs) (auto simp: slots_def total_weight_def)

lemma count_list_replicate: "count_list (replicate n a) z = (if a = z then n else 0)"
  by (induction n) auto

lemma count_list_slots: "count_list (slots zs) z = weight_of zs z"
  by (induction zs) (auto simp: slots_def weight_of_def count_list_replicate)

lemma weight_of_distinct:
  "distinct (map fst zs) \<Longrightarrow> (z, w) \<in> set zs \<Longrightarrow> weight_of zs z = w"
proof (induction zs)
  case Nil
  then show ?case by simp
next
  case (Cons p zs)
  show ?case
  proof (cases "p = (z, w)")
    case True
    with Cons.prems(1) have "filter (\<lambda>q. fst q = z) zs = []"
      by (auto simp: filter_empty_conv image_iff)
    with True show ?thesis by (simp add: weight_of_def)
  next
    case False
    with Cons.prems have "(z, w) \<in> set zs" "fst p \<noteq> z" by (auto simp: image_iff)
    with Cons show ?thesis by (simp add: weight_of_def)
  qed
qed

lemma newZonePicker_Some:
  assumes "newZonePicker entries = Some s0"
  shows "cursor s0 = 0" and "0 < total_weight (zones s0)"
proof -
  from assms have ne: "entries \<noteq> []"
    and pos: "\<not> list_ex (\<lambda>(z, w). case w of None \<Rightarrow> False | Some n \<Rightarrow> n \<le> 0) entries"
    and s0: "s0 = \<lparr> zones = map (\<lambda>(z, w). (z, case w of None \<Rightarrow> 1 | Some n \<Rightarrow> nat n)) entries,
                     cursor = 0 \<rparr>"
    by (auto simp: newZonePicker_def split: if_splits)
  show "cursor s0 = 0" by (simp add: s0)
  have "length es \<le> sum_list (map snd (map (\<lambda>(z, w). (z, case w of None \<Rightarrow> 1 | Some n \<Rightarrow> nat n)) es))"
    if "\<not> list_ex (\<lambda>(z, w). case w of None \<Rightarrow> False | Some n \<Rightarrow> n \<le> 0) es"
    for es :: "(string \<times> int option) list"
    using that
  proof (induction es)
    case Nil
    then show ?case by simp
  next
    case (Cons e es)
    obtain z w where e: "e = (z, w)" by (cases e)
    from Cons.prems e have "1 \<le> (case w of None \<Rightarrow> 1 | Some n \<Rightarrow> nat n)"
      by (cases w) auto
    with Cons e show ?case by simp
  qed
  from this[OF pos] have "length entries \<le> total_weight (zones s0)"
    by (simp add: s0 total_weight_def)
  moreover from ne have "0 < length entries" by simp
  ultimately show "0 < total_weight (zones s0)" by linarith
qed

lemma Next_calls_from:
  assumes "cursor s < length (slots (zones s))"
  shows "Next_calls n s =
     (map (\<lambda>i. slots (zones s) ! ((cursor s + i) mod length (slots (zones s)))) [0..<n],
      s\<lparr>cursor := (cursor s + n) mod length (slots (zones s))\<rparr>)"
  using assms
proof (induction n arbitrary: s)
  case 0
  then show ?case by simp
next
  case (Suc n)
  let ?ring = "slots (zones s)"
  let ?N = "length ?ring"
  let ?s' = "s\<lparr>cursor := (cursor s + 1) mod ?N\<rparr>"
  have N: "0 < ?N" using Suc.prems by arith
  have nx: "Next s = (?ring ! (cursor s mod ?N), ?s')"
    by (simp add: Next_def Let_def)
  have c': "cursor ?s' < length (slots (zones ?s'))" using N by simp
  have idx: "(Suc (cursor s) mod ?N + i) mod ?N = Suc (cursor s + i) mod ?N" for i
    by (simp add: mod_add_left_eq)
  have "Next_calls n ?s' =
     (map (\<lambda>i. ?ring ! ((cursor s + Suc i) mod ?N)) [0..<n],
      s\<lparr>cursor := (cursor s + Suc n) mod ?N\<rparr>)"
    using Suc.IH[OF c'] by (simp add: idx)
  moreover have "[0..<Suc n] = 0 # map Suc [0..<n]"
    by (simp add: map_Suc_upt upt_conv_Cons del: upt_Suc)
  ultimately show ?case
    by (simp add: nx comp_def del: upt_Suc)
qed

lemma window_is_rotation:
  assumes "c < length ring"
  shows "map (\<lambda>i. ring ! ((c + i) mod length ring)) [0..<length ring] = rotate c ring"
  by (rule nth_equalityI) (simp_all add: nth_rotate)

lemma count_list_rotate: "count_list (rotate c xs) z = count_list xs z"
proof -
  let ?k = "c mod length xs"
  have a: "count_list (rotate c xs) z = count_list (drop ?k xs) z + count_list (take ?k xs) z"
    by (simp add: rotate_drop_take)
  have b: "count_list (take ?k xs @ drop ?k xs) z =
      count_list (take ?k xs) z + count_list (drop ?k xs) z"
    by (rule count_list_append)
  have c: "take ?k xs @ drop ?k xs = xs"
    by (rule append_take_drop_id)
  show ?thesis using a b unfolding c by simp
qed

section \<open>Claim about the Zone Selector\<close>

text \<open>
  C3. For a configuration that \<open>newZonePicker\<close> accepts, with the weights summing to
  \<open>N\<close>: after any number \<open>k\<close> of calls, the next \<open>N\<close> calls of \<open>Next()\<close> return each
  zone exactly as many times as the configuration weighs it (its own weight, when
  the zone names are distinct), and the \<open>N\<close> calls after those return the same
  sequence again.
\<close>

theorem Next_weighted_round_robin:
  assumes "newZonePicker entries = Some s0"
  shows "let N = total_weight (zones s0);
             s = snd (Next_calls k s0);
             window = fst (Next_calls N s)
         in 0 < N \<and> length window = N
            \<and> (\<forall>z. count_list window z = weight_of (zones s0) z)
            \<and> (distinct (map fst (zones s0)) \<longrightarrow>
                 (\<forall>(z, w)\<in>set (zones s0). count_list window z = w))
            \<and> fst (Next_calls N (snd (Next_calls N s))) = window"
proof -
  let ?ring = "slots (zones s0)"
  let ?N = "length ?ring"
  have N: "?N = total_weight (zones s0)" by (rule length_slots)
  have pos: "0 < ?N" and c0: "cursor s0 < ?N"
    using newZonePicker_Some[OF assms] N by simp_all
  define c where "c = (cursor s0 + k) mod ?N"
  define s where "s = s0\<lparr>cursor := c\<rparr>"
  have s: "snd (Next_calls k s0) = s"
    by (simp add: Next_calls_from[OF c0] s_def c_def)
  have cs: "cursor s < length (slots (zones s))" "zones s = zones s0" "cursor s = c" "c < ?N"
    using pos by (simp_all add: s_def c_def)
  have w: "Next_calls ?N s = (rotate c ?ring, s)"
    using Next_calls_from[OF cs(1), of ?N] cs(2,3,4)
    by (simp add: window_is_rotation s_def)
  have cnt: "count_list (rotate c ?ring) z = weight_of (zones s0) z" for z
    by (simp add: count_list_rotate count_list_slots)
  have dist: "\<forall>(z, w)\<in>set (zones s0). count_list (rotate c ?ring) z = w"
    if "distinct (map fst (zones s0))"
    using weight_of_distinct[OF that] cnt by auto
  have win: "fst (Next_calls (total_weight (zones s0)) (snd (Next_calls k s0))) = rotate c ?ring"
    using w by (simp add: s N[symmetric])
  have again: "fst (Next_calls (total_weight (zones s0))
      (snd (Next_calls (total_weight (zones s0)) (snd (Next_calls k s0))))) = rotate c ?ring"
    using w by (simp add: s N[symmetric])
  have len: "length (rotate c ?ring) = total_weight (zones s0)" "0 < total_weight (zones s0)"
    using pos N by simp_all
  show ?thesis
    unfolding Let_def win again using len cnt dist by blast
qed

theorem Next_weighted_round_robin_witness:
  "newZonePicker [(''A'', Some 2), (''B'', None)] = Some \<lparr> zones = [(''A'', 2), (''B'', 1)], cursor = 0 \<rparr>
   \<and> total_weight [(''A'', 2), (''B'', 1)] = 3
   \<and> fst (Next_calls 3 (snd (Next_calls 1 \<lparr> zones = [(''A'', 2), (''B'', 1)], cursor = 0 \<rparr>))) =
       [''A'', ''B'', ''A'']
   \<and> count_list (fst (Next_calls 3 (snd (Next_calls 1
         \<lparr> zones = [(''A'', 2), (''B'', 1)], cursor = 0 \<rparr>)))) ''A'' = 2
   \<and> count_list (fst (Next_calls 3 (snd (Next_calls 1
         \<lparr> zones = [(''A'', 2), (''B'', 1)], cursor = 0 \<rparr>)))) ''B'' = 1
   \<and> fst (Next_calls 3 (snd (Next_calls 4 \<lparr> zones = [(''A'', 2), (''B'', 1)], cursor = 0 \<rparr>))) =
       [''A'', ''B'', ''A'']"
proof -
  have h: "newZonePicker [(''A'', Some 2), (''B'', None)] =
      Some \<lparr> zones = [(''A'', 2), (''B'', 1)], cursor = 0 \<rparr>"
    by (simp add: newZonePicker_def)
  have t: "total_weight [(''A'', 2), (''B'', 1)] = 3"
    by (simp add: total_weight_def)
  have e: "fst (Next_calls 3 (snd (Next_calls 1 \<lparr> zones = [(''A'', 2), (''B'', 1)], cursor = 0 \<rparr>))) =
       [''A'', ''B'', ''A'']"
    by code_simp
  have e4: "snd (Next_calls 4 \<lparr> zones = [(''A'', 2), (''B'', 1)], cursor = 0 \<rparr>) =
        snd (Next_calls 1 \<lparr> zones = [(''A'', 2), (''B'', 1)], cursor = 0 \<rparr>)"
    by code_simp
  show ?thesis
    using h t e e4 Next_weighted_round_robin[OF h, of 1]
    by (simp add: Let_def weight_of_def)
qed

end
